theory Spec2Isabelle
  imports Main
begin

section \<open>The cart store of RocketShoes (src/hooks/useCart.tsx)\<close>

text \<open>
  The module is one React component, \<^verbatim>\<open>CartProvider\<close>. Its hook state (two
  \<^verbatim>\<open>useState\<close> cells, two \<^verbatim>\<open>useRef\<close> cells, the dependency arrays of its effects)
  and the one \<^verbatim>\<open>localStorage\<close> slot it writes are a record; a render pass with its
  effects is a function on that record; the three operations compute, from the cart of
  the render they were created in and the answers of the remote API, the one action
  they end with: a call of \<^verbatim>\<open>setCart\<close> or a \<^verbatim>\<open>toast.error\<close>.

  Numbers are integers (\<^verbatim>\<open>id\<close>, \<^verbatim>\<open>amount\<close>). A thrown exception or a rejected
  promise is the left summand of a sum type.

  The operations are also given statement by statement on a memory of shared objects,
  where a write before a failure would show, and \<^verbatim>\<open>updateProductAmount\<close> once more
  for amounts that are not integers.
\<close>

subsection \<open>Data\<close>

text \<open>\<^verbatim>\<open>Stock\<close> and \<^verbatim>\<open>Product\<close> come from \<^verbatim>\<open>../types\<close>: a stock entry has an
  \<^verbatim>\<open>id\<close> and an \<^verbatim>\<open>amount\<close>; a product has an \<^verbatim>\<open>id\<close>, an \<^verbatim>\<open>amount\<close> and further
  fields this module never reads, which are the extension part of the record.\<close>

record Stock =
  id_field :: int
  amount :: int

record Product =
  id_field :: int
  amount :: int

text \<open>\<^verbatim>\<open>interface StockAmount { [key: number]: number }\<close>\<close>

type_synonym StockAmount = "int \<rightharpoonup> int"

text \<open>What can be thrown: by \<^verbatim>\<open>JSON.parse\<close>, by a request that rejects, and by the
  destructuring of a response without data.\<close>

datatype error = SyntaxError | RequestFailed | TypeError

text \<open>The four texts passed to \<^verbatim>\<open>toast.error\<close>.\<close>

datatype message =
    Erro_na_adicao_do_produto
  | Quantidade_solicitada_fora_de_estoque
  | Erro_na_remocao_do_produto
  | Erro_na_alteracao_de_quantidade_do_produto

text \<open>What a function of the component ends with: a state setter or a toast.\<close>

datatype 'p action =
    setCart "'p list"
  | setStock StockAmount
  | toast_error message

subsection \<open>The collaborators: remote API and platform\<close>

text \<open>
  \<^verbatim>\<open>api.get\<close> on the three routes the module uses. A request either rejects or resolves
  with the response's \<^verbatim>\<open>data\<close>; for \<^verbatim>\<open>products/:id\<close> the data may be falsy (\<open>None\<close>),
  which the code tests with \<^verbatim>\<open>!product\<close>.
\<close>

record 'z api =
  get_products_id :: "int \<Rightarrow> error + 'z Product_scheme option"
  get_stock_id :: "int \<Rightarrow> error + Stock"
  get_stock :: "error + Stock list"

text \<open>\<^verbatim>\<open>JSON.parse\<close> and \<^verbatim>\<open>JSON.stringify\<close> at the type of the cart are built-ins of the
  platform: the model takes them as a parameter.\<close>

record 'z platform =
  JSON_parse :: "string \<Rightarrow> error + 'z Product_scheme list"
  JSON_stringify :: "'z Product_scheme list \<Rightarrow> string"

subsection \<open>Array helpers\<close>

text \<open>\<^verbatim>\<open>Array.prototype.find\<close> is \<^const>\<open>List.find\<close>. \<^verbatim>\<open>findIndex\<close> answers \<open>-1\<close> when
  no element satisfies the predicate.\<close>

fun findIndex_from :: "int \<Rightarrow> ('a \<Rightarrow> bool) \<Rightarrow> 'a list \<Rightarrow> int" where
  "findIndex_from i P [] = -1"
| "findIndex_from i P (x # xs) = (if P x then i else findIndex_from (i + 1) P xs)"

definition findIndex :: "('a \<Rightarrow> bool) \<Rightarrow> 'a list \<Rightarrow> int" where
  "findIndex P xs = findIndex_from 0 P xs"

text \<open>\<^verbatim>\<open>xs.splice(i, 1)\<close> for an index \<open>i \<ge> 0\<close>: the array without its element \<open>i\<close>.\<close>

definition splice1 :: "nat \<Rightarrow> 'a list \<Rightarrow> 'a list" where
  "splice1 i xs = take i xs @ drop (Suc i) xs"

text \<open>
  \<^verbatim>\<open>const productExists = updatedCart.find(P)\<close> is a reference to the first element of
  the array that satisfies \<open>P\<close>, and an assignment to \<^verbatim>\<open>productExists.amount\<close> writes
  that element. \<open>assign_found P f xs\<close> is the array after the write \<open>f\<close>.
  (The element is shared with the array \<^verbatim>\<open>cart\<close> that \<^verbatim>\<open>updatedCart\<close> was copied from;
  both operations that write call \<^verbatim>\<open>setCart(updatedCart)\<close> right after the write, with
  no statement that can throw in between, so the old array is dropped in the same step.)
\<close>

fun assign_found :: "('a \<Rightarrow> bool) \<Rightarrow> ('a \<Rightarrow> 'a) \<Rightarrow> 'a list \<Rightarrow> 'a list" where
  "assign_found P f [] = []"
| "assign_found P f (x # xs) = (if P x then f x # xs else x # assign_found P f xs)"

subsection \<open>The functions of the component\<close>

text \<open>The initialiser of \<^verbatim>\<open>useState<Product[]>\<close>: \<^verbatim>\<open>localStorage.getItem\<close> answers
  \<^verbatim>\<open>null\<close> or a string; \<^verbatim>\<open>if (storedCart)\<close> holds for a non-empty string.\<close>

definition initial_cart :: "'z platform \<Rightarrow> string option \<Rightarrow> error + 'z Product_scheme list" where
  "initial_cart pf storedCart =
     (case storedCart of
        None \<Rightarrow> Inr []
      | Some s \<Rightarrow> if s \<noteq> [] then JSON_parse pf s else Inr [])"

definition loadStocks :: "'z api \<Rightarrow> error + StockAmount" where
  "loadStocks remote =
     (case get_stock remote of
        Inl e \<Rightarrow> Inl e
      | Inr data \<Rightarrow>
          Inr (foldl (\<lambda>sumAmount stock. sumAmount(Stock.id_field stock \<mapsto> Stock.amount stock))
                 Map.empty data))"

definition getProduct :: "'z api \<Rightarrow> int \<Rightarrow> error + 'z Product_scheme option" where
  "getProduct remote productId = get_products_id remote productId"

definition getStock :: "'z api \<Rightarrow> int \<Rightarrow> error + Stock" where
  "getStock remote productId = get_stock_id remote productId"

definition addProduct ::
  "'z api \<Rightarrow> 'z Product_scheme list \<Rightarrow> int \<Rightarrow> 'z Product_scheme action" where
  "addProduct remote cart productId =
     (let updatedCart = cart in
      case getProduct remote productId of
        Inl e \<Rightarrow> toast_error Erro_na_adicao_do_produto
      | Inr None \<Rightarrow> toast_error Erro_na_adicao_do_produto
      | Inr (Some product) \<Rightarrow>
          (case find (\<lambda>cartProduct. id_field cartProduct = productId) updatedCart of
             None \<Rightarrow> setCart (updatedCart @ [product\<lparr>amount := 1\<rparr>])
           | Some productExists \<Rightarrow>
               (case getStock remote productId of
                  Inl e \<Rightarrow> toast_error Erro_na_adicao_do_produto
                | Inr stock \<Rightarrow>
                    if amount productExists \<ge> Stock.amount stock
                    then toast_error Quantidade_solicitada_fora_de_estoque
                    else setCart (assign_found (\<lambda>cartProduct. id_field cartProduct = productId)
                                    (\<lambda>p. p\<lparr>amount := amount p + 1\<rparr>) updatedCart))))"

definition removeProduct :: "'z Product_scheme list \<Rightarrow> int \<Rightarrow> 'z Product_scheme action" where
  "removeProduct cart productId =
     (let updatedCart = cart;
          productIndex = findIndex (\<lambda>product. id_field product = productId) updatedCart
      in if productIndex < 0 then toast_error Erro_na_remocao_do_produto
         else setCart (splice1 (nat productIndex) updatedCart))"

definition updateProductAmount ::
  "'z api \<Rightarrow> 'z Product_scheme list \<Rightarrow> int \<Rightarrow> int \<Rightarrow> 'z Product_scheme action" where
  "updateProductAmount remote cart productId amount' =
     (if amount' < 1 then toast_error Erro_na_alteracao_de_quantidade_do_produto
      else case getStock remote productId of
        Inl e \<Rightarrow> toast_error Erro_na_alteracao_de_quantidade_do_produto
      | Inr stock \<Rightarrow>
          if Stock.amount stock < amount'
          then toast_error Quantidade_solicitada_fora_de_estoque
          else (let updatedCart = cart in
                case find (\<lambda>product. id_field product = productId) updatedCart of
                  None \<Rightarrow> toast_error Erro_na_alteracao_de_quantidade_do_produto
                | Some productExists \<Rightarrow>
                    setCart (assign_found (\<lambda>product. id_field product = productId)
                               (\<lambda>p. p\<lparr>amount := amount'\<rparr>) updatedCart)))"

subsection \<open>The operations, statement by statement, on shared objects\<close>

text \<open>
  The items of the cart are objects, and the arrays \<^verbatim>\<open>cart\<close> and \<^verbatim>\<open>updatedCart\<close>
  (a shallow copy, \<^verbatim>\<open>[...cart]\<close>) hold references to the same objects: an assignment to
  \<^verbatim>\<open>productExists.amount\<close> is visible through both. To follow such writes, the
  operations are given a second time on a memory: the objects by reference, the calls
  of \<^verbatim>\<open>toast.error\<close> and the arrays passed to \<^verbatim>\<open>setCart\<close>, in the order they
  happen. An array is the list of its references (no array is changed after it is
  shared: \<^verbatim>\<open>splice\<close> works on the copy).

  The body of a \<^verbatim>\<open>try\<close> block answers the memory it has reached, with \<open>Some e\<close> when it
  threw \<open>e\<close>; the \<^verbatim>\<open>catch\<close> block starts from that memory, so a write made before a
  throw stays. \<open>Error\<close> is the \<^verbatim>\<open>Error()\<close> the code throws itself; a rejected request
  throws its error.
\<close>

datatype exn = Error | Rejection error

record 'z memory =
  objects :: "nat \<Rightarrow> 'z Product_scheme"
  next_object :: nat
  toasts :: "message list"
  setCart_calls :: "nat list list"

text \<open>\<^verbatim>\<open>toast.error(msg)\<close>, \<^verbatim>\<open>setCart(array)\<close>, the arrival of the object of a response,
  and the assignment \<^verbatim>\<open>r.amount = v\<close>.\<close>

definition toast_call :: "message \<Rightarrow> 'z memory \<Rightarrow> 'z memory" where
  "toast_call msg m = m\<lparr>toasts := toasts m @ [msg]\<rparr>"

definition setCart_call :: "nat list \<Rightarrow> 'z memory \<Rightarrow> 'z memory" where
  "setCart_call array m = m\<lparr>setCart_calls := setCart_calls m @ [array]\<rparr>"

definition new_object :: "'z Product_scheme \<Rightarrow> 'z memory \<Rightarrow> nat \<times> 'z memory" where
  "new_object obj m =
     (next_object m, m\<lparr>objects := (objects m)(next_object m := obj), next_object := Suc (next_object m)\<rparr>)"

definition write_amount :: "nat \<Rightarrow> int \<Rightarrow> 'z memory \<Rightarrow> 'z memory" where
  "write_amount r v m = m\<lparr>objects := (objects m)(r := (objects m r)\<lparr>amount := v\<rparr>)\<rparr>"

text \<open>\<^verbatim>\<open>addProduct\<close>, lines 97 to 131. The object of the response is referenced by the
  local \<^verbatim>\<open>product\<close> alone until it is put into the new array; it enters the memory
  there, and \<^verbatim>\<open>product.amount = 1\<close> writes it.\<close>

definition addProduct_try ::
  "'z api \<Rightarrow> nat list \<Rightarrow> int \<Rightarrow> 'z memory \<Rightarrow> exn option \<times> 'z memory" where
  "addProduct_try remote cart productId m =
     (let updatedCart = cart in
      case getProduct remote productId of
        Inl e \<Rightarrow> (Some (Rejection e), m)
      | Inr None \<Rightarrow> (None, toast_call Erro_na_adicao_do_produto m)
      | Inr (Some response) \<Rightarrow>
          (case find (\<lambda>cartProduct. id_field (objects m cartProduct) = productId) updatedCart of
             None \<Rightarrow>
               (let (product, m1) = new_object response m;
                    m2 = write_amount product 1 m1
                in (None, setCart_call (updatedCart @ [product]) m2))
           | Some productExists \<Rightarrow>
               (case getStock remote productId of
                  Inl e \<Rightarrow> (Some (Rejection e), m)
                | Inr stock \<Rightarrow>
                    if amount (objects m productExists) \<ge> Stock.amount stock
                    then (None, toast_call Quantidade_solicitada_fora_de_estoque m)
                    else (let m1 = write_amount productExists
                                     (amount (objects m productExists) + 1) m
                          in (None, setCart_call updatedCart m1)))))"

definition addProduct_heap :: "'z api \<Rightarrow> nat list \<Rightarrow> int \<Rightarrow> 'z memory \<Rightarrow> 'z memory" where
  "addProduct_heap remote cart productId m =
     (case addProduct_try remote cart productId m of
        (Some e, m') \<Rightarrow> toast_call Erro_na_adicao_do_produto m'
      | (None, m') \<Rightarrow> m')"

text \<open>\<^verbatim>\<open>removeProduct\<close>, lines 133 to 148.\<close>

definition removeProduct_try :: "nat list \<Rightarrow> int \<Rightarrow> 'z memory \<Rightarrow> exn option \<times> 'z memory" where
  "removeProduct_try cart productId m =
     (let updatedCart = cart;
          productIndex = findIndex (\<lambda>product. id_field (objects m product) = productId) updatedCart
      in if productIndex < 0 then (Some Error, m)
         else (None, setCart_call (splice1 (nat productIndex) updatedCart) m))"

definition removeProduct_heap :: "nat list \<Rightarrow> int \<Rightarrow> 'z memory \<Rightarrow> 'z memory" where
  "removeProduct_heap cart productId m =
     (case removeProduct_try cart productId m of
        (Some e, m') \<Rightarrow> toast_call Erro_na_remocao_do_produto m'
      | (None, m') \<Rightarrow> m')"

text \<open>\<^verbatim>\<open>updateProductAmount\<close>, lines 150 to 177.\<close>

definition updateProductAmount_try ::
  "'z api \<Rightarrow> nat list \<Rightarrow> int \<Rightarrow> int \<Rightarrow> 'z memory \<Rightarrow> exn option \<times> 'z memory" where
  "updateProductAmount_try remote cart productId amount' m =
     (if amount' < 1 then (Some Error, m)
      else case getStock remote productId of
        Inl e \<Rightarrow> (Some (Rejection e), m)
      | Inr stock \<Rightarrow>
          if Stock.amount stock < amount'
          then (None, toast_call Quantidade_solicitada_fora_de_estoque m)
          else (let updatedCart = cart in
                case find (\<lambda>product. id_field (objects m product) = productId) updatedCart of
                  None \<Rightarrow> (Some Error, m)
                | Some productExists \<Rightarrow>
                    (let m1 = write_amount productExists amount' m
                     in (None, setCart_call updatedCart m1))))"

definition updateProductAmount_heap ::
  "'z api \<Rightarrow> nat list \<Rightarrow> int \<Rightarrow> int \<Rightarrow> 'z memory \<Rightarrow> 'z memory" where
  "updateProductAmount_heap remote cart productId amount' m =
     (case updateProductAmount_try remote cart productId amount' m of
        (Some e, m') \<Rightarrow> toast_call Erro_na_alteracao_de_quantidade_do_produto m'
      | (None, m') \<Rightarrow> m')"

subsection \<open>The hook state and a render pass\<close>

text \<open>
  An array or object held in state is a pair of its reference and its content: the
  effects compare references (\<^verbatim>\<open>!==\<close>), never contents. \<open>next_ref\<close> is the next
  unused reference. The two \<^verbatim>\<open>useRef\<close> cells are \<open>None\<close> while they hold
  \<^verbatim>\<open>undefined\<close>; they are read only for comparison, so they hold a reference. The
  dependency arrays \<^verbatim>\<open>[cart, cartPreviousValue]\<close> and \<^verbatim>\<open>[stock, stockPreviousValue]\<close>
  of the last render are \<open>None\<close> before the first one.
\<close>

record 'z CartProvider =
  cart :: "nat \<times> 'z Product_scheme list"
  stock :: "nat \<times> StockAmount"
  prevCartRef :: "nat option"
  prevStockRef :: "nat option"
  cart_effect_deps :: "(nat \<times> nat) option"
  stock_effect_deps :: "(nat \<times> nat) option"
  localStorage :: "string option"
  next_ref :: nat

text \<open>The hook state of the first render, from the content of the storage slot. A
  \<^verbatim>\<open>JSON.parse\<close> that throws inside the initialiser is not caught.\<close>

definition CartProvider_init :: "'z platform \<Rightarrow> string option \<Rightarrow> error + 'z CartProvider" where
  "CartProvider_init pf slot =
     (case initial_cart pf slot of
        Inl e \<Rightarrow> Inl e
      | Inr c \<Rightarrow>
          Inr \<lparr>cart = (0, c), stock = (1, Map.empty),
               prevCartRef = None, prevStockRef = None,
               cart_effect_deps = None, stock_effect_deps = None,
               localStorage = slot, next_ref = 2\<rparr>)"

text \<open>
  One render and its effects, in the order of the source: the previous values are read
  from the refs during the render (\<^verbatim>\<open>prevCartRef.current ?? cart\<close>); the first effect has
  no dependency array and stores the current values in the refs; the second runs when
  one of its dependencies differs from the last render's and writes the slot if the
  references differ; the third, under the same test on the stock, calls
  \<^verbatim>\<open>loadStocks\<close>. The second component of the result says whether \<^verbatim>\<open>loadStocks\<close> was
  called.
\<close>

definition render :: "'z platform \<Rightarrow> 'z CartProvider \<Rightarrow> 'z CartProvider \<times> bool" where
  "render pf st =
     (let cartPreviousValue = (case prevCartRef st of None \<Rightarrow> fst (cart st) | Some r \<Rightarrow> r);
          stockPreviousValue = (case prevStockRef st of None \<Rightarrow> fst (stock st) | Some r \<Rightarrow> r);
          cart_deps = (fst (cart st), cartPreviousValue);
          stock_deps = (fst (stock st), stockPreviousValue);
          st1 = st\<lparr>prevCartRef := Some (fst (cart st)), prevStockRef := Some (fst (stock st))\<rparr>;
          st2 = (if cart_effect_deps st \<noteq> Some cart_deps \<and> cartPreviousValue \<noteq> fst (cart st)
                 then st1\<lparr>localStorage := Some (JSON_stringify pf (snd (cart st)))\<rparr>
                 else st1);
          st3 = st2\<lparr>cart_effect_deps := Some cart_deps, stock_effect_deps := Some stock_deps\<rparr>
      in (st3, stock_effect_deps st \<noteq> Some stock_deps \<and> stockPreviousValue \<noteq> fst (stock st)))"

text \<open>A state setter called with a new array or object stores it under a fresh
  reference and schedules a render.\<close>

definition set_cart :: "'z Product_scheme list \<Rightarrow> 'z CartProvider \<Rightarrow> 'z CartProvider" where
  "set_cart c st = st\<lparr>cart := (next_ref st, c), next_ref := Suc (next_ref st)\<rparr>"

definition set_stock :: "StockAmount \<Rightarrow> 'z CartProvider \<Rightarrow> 'z CartProvider" where
  "set_stock m st = st\<lparr>stock := (next_ref st, m), next_ref := Suc (next_ref st)\<rparr>"

text \<open>
  Rendering until no state update is pending. A \<^verbatim>\<open>loadStocks\<close> that resolves calls
  \<^verbatim>\<open>setStock\<close> with a new object, which renders again, and that render calls
  \<^verbatim>\<open>loadStocks\<close> again: the loop need not end, so it runs on fuel and \<open>None\<close> is
  "still rendering". A \<^verbatim>\<open>loadStocks\<close> that rejects changes nothing.
\<close>

fun rerender :: "nat \<Rightarrow> 'z api \<Rightarrow> 'z platform \<Rightarrow> 'z CartProvider \<Rightarrow> 'z CartProvider option" where
  "rerender 0 remote pf st = None"
| "rerender (Suc n) remote pf st =
     (let (st', refresh) = render pf st in
      if refresh
      then (case loadStocks remote of
              Inl e \<Rightarrow> Some st'
            | Inr stockAmount \<Rightarrow> rerender n remote pf (set_stock stockAmount st'))
      else Some st')"

text \<open>A call of one of the three operations the context exposes.\<close>

datatype call = AddProduct int | RemoveProduct int | UpdateProductAmount int int

fun invoke :: "'z api \<Rightarrow> 'z Product_scheme list \<Rightarrow> call \<Rightarrow> 'z Product_scheme action" where
  "invoke remote c (AddProduct productId) = addProduct remote c productId"
| "invoke remote c (RemoveProduct productId) = removeProduct c productId"
| "invoke remote c (UpdateProductAmount productId amount') =
     updateProductAmount remote c productId amount'"

text \<open>The operation runs on the cart of the current render; its action is applied and
  the component renders until it is stable. A toast changes no state and schedules no
  render.\<close>

definition dispatch ::
  "nat \<Rightarrow> 'z api \<Rightarrow> 'z platform \<Rightarrow> 'z CartProvider \<Rightarrow> call \<Rightarrow> 'z CartProvider option" where
  "dispatch n remote pf st cl =
     (case invoke remote (snd (cart st)) cl of
        setCart c \<Rightarrow> rerender n remote pf (set_cart c st)
      | setStock m \<Rightarrow> rerender n remote pf (set_stock m st)
      | toast_error m \<Rightarrow> Some st)"

text \<open>The states the component can be in between two operations: after the first
  render, and after each operation, whatever the remote API answers at that time.\<close>

inductive reachable :: "'z platform \<Rightarrow> 'z CartProvider \<Rightarrow> bool" for pf where
  mount: "CartProvider_init pf slot = Inr st0 \<Longrightarrow> rerender n remote pf st0 = Some st
          \<Longrightarrow> reachable pf st"
| step: "reachable pf st \<Longrightarrow> dispatch n remote pf st cl = Some st' \<Longrightarrow> reachable pf st'"

subsection \<open>A platform and a remote API for concrete scenarios\<close>

text \<open>
  The theorems below hold for every platform and every remote API. To run the component
  on concrete inputs, \<open>json_text\<close> implements the two JSON built-ins on the texts a
  cart of products without further fields serialises to,
  \<^verbatim>\<open>[{"id":1,"amount":2},{"id":7,"amount":1}]\<close>: integers in decimal, no white space,
  the keys in this order. It rejects every other text with \<^verbatim>\<open>SyntaxError\<close>; the
  scenarios use it on texts it wrote itself and on texts that are not JSON at all.
\<close>
fun show_nat :: "nat \<Rightarrow> string" where
  "show_nat n = (if n < 10 then [''0123456789'' ! n]
                 else show_nat (n div 10) @ [''0123456789'' ! (n mod 10)])"

declare show_nat.simps [simp del]

definition show_int :: "int \<Rightarrow> string" where
  "show_int i = (if i < 0 then CHR ''-'' # show_nat (nat (- i)) else show_nat (nat i))"

definition stringify_item :: "Product \<Rightarrow> string" where
  \<open>stringify_item p = ''{"id":'' @ show_int (id_field p) @ '',"amount":'' @ show_int (amount p) @ ''}''\<close>

fun join_comma :: "string list \<Rightarrow> string" where
  "join_comma [] = []"
| "join_comma [x] = x"
| "join_comma (x # y # ys) = x @ '','' @ join_comma (y # ys)"

definition stringify_cart :: "Product list \<Rightarrow> string" where
  "stringify_cart c = ''['' @ join_comma (map stringify_item c) @ '']''"

fun expect :: "string \<Rightarrow> string \<Rightarrow> string option" where
  "expect [] s = Some s"
| "expect (c # cs) [] = None"
| "expect (c # cs) (d # ds) = (if c = d then expect cs ds else None)"

definition digit_val :: "char \<Rightarrow> nat option" where
  "digit_val c = (if c \<in> set ''0123456789'' then Some (of_char c - 48) else None)"

fun read_digits :: "nat \<Rightarrow> string \<Rightarrow> nat \<times> string" where
  "read_digits acc [] = (acc, [])"
| "read_digits acc (c # cs) =
     (case digit_val c of None \<Rightarrow> (acc, c # cs) | Some d \<Rightarrow> read_digits (10 * acc + d) cs)"

definition read_nat :: "string \<Rightarrow> (nat \<times> string) option" where
  "read_nat s =
     (case s of
        [] \<Rightarrow> None
      | c # cs \<Rightarrow>
          (case digit_val c of
             None \<Rightarrow> None
           | Some d \<Rightarrow> if d = 0 then Some (0, cs) else Some (read_digits d cs)))"

definition read_int :: "string \<Rightarrow> (int \<times> string) option" where
  "read_int s =
     (case s of
        [] \<Rightarrow> None
      | c # cs \<Rightarrow>
          if c = CHR ''-'' then map_option (\<lambda>(n, r). (- int n, r)) (read_nat cs)
          else map_option (\<lambda>(n, r). (int n, r)) (read_nat s))"

definition read_item :: "string \<Rightarrow> (Product \<times> string) option" where
  \<open>read_item s =
     Option.bind (expect ''{"id":'' s) (\<lambda>s1.
     Option.bind (read_int s1) (\<lambda>(i, s2).
     Option.bind (expect '',"amount":'' s2) (\<lambda>s3.
     Option.bind (read_int s3) (\<lambda>(a, s4).
     map_option (\<lambda>s5. (\<lparr>id_field = i, amount = a\<rparr>, s5)) (expect ''}'' s4)))))\<close>

fun read_items :: "nat \<Rightarrow> string \<Rightarrow> Product list option" where
  "read_items 0 s = None"
| "read_items (Suc n) s =
     (if s = '']'' then Some []
      else Option.bind (expect '','' s) (\<lambda>s1.
           Option.bind (read_item s1) (\<lambda>(p, s2).
           map_option ((#) p) (read_items n s2))))"

definition parse_cart :: "string \<Rightarrow> error + Product list" where
  "parse_cart s =
     (case expect ''['' s of
        None \<Rightarrow> Inl SyntaxError
      | Some s1 \<Rightarrow>
          if s1 = '']'' then Inr []
          else (case read_item s1 of
                  None \<Rightarrow> Inl SyntaxError
                | Some (p, s2) \<Rightarrow>
                    (case read_items (Suc (length s2)) s2 of
                       None \<Rightarrow> Inl SyntaxError
                     | Some ps \<Rightarrow> Inr (p # ps))))"

definition json_text :: "unit platform" where
  "json_text = \<lparr>JSON_parse = parse_cart, JSON_stringify = stringify_cart\<rparr>"

text \<open>\<open>shop k\<close> is a remote API that knows the products 1, 2 and 3, each with \<open>k\<close>
  units in stock, and answers every other id with a rejected request.\<close>

definition shop :: "int \<Rightarrow> unit api" where
  "shop k =
     \<lparr>get_products_id =
        (\<lambda>i. if 1 \<le> i \<and> i \<le> 3 then Inr (Some \<lparr>id_field = i, amount = 0\<rparr>)
             else Inl RequestFailed),
      get_stock_id =
        (\<lambda>i. if 1 \<le> i \<and> i \<le> 3 then Inr \<lparr>Stock.id_field = i, Stock.amount = k\<rparr>
             else Inl RequestFailed),
      get_stock =
        Inr [\<lparr>Stock.id_field = 1, Stock.amount = k\<rparr>,
             \<lparr>Stock.id_field = 2, Stock.amount = k\<rparr>,
             \<lparr>Stock.id_field = 3, Stock.amount = k\<rparr>]\<rparr>"

text \<open>The store after the first render on an empty storage slot.\<close>

definition fresh_store :: "unit CartProvider" where
  "fresh_store =
     \<lparr>cart = (0, []), stock = (1, Map.empty),
      prevCartRef = Some 0, prevStockRef = Some 1,
      cart_effect_deps = Some (0, 0), stock_effect_deps = Some (1, 1),
      localStorage = None, next_ref = 2\<rparr>"

text \<open>The store after \<^verbatim>\<open>addProduct(1)\<close> on the fresh store, and the store after the first
  render on a slot that holds a cart of three items.\<close>

definition one_item_store :: "unit CartProvider" where
  \<open>one_item_store =
     \<lparr>cart = (2, [\<lparr>id_field = 1, amount = 1\<rparr>]), stock = (1, Map.empty),
      prevCartRef = Some 2, prevStockRef = Some 1,
      cart_effect_deps = Some (2, 0), stock_effect_deps = Some (1, 1),
      localStorage = Some ''[{"id":1,"amount":1}]'', next_ref = 3\<rparr>\<close>

definition stocked_store :: "unit CartProvider" where
  \<open>stocked_store =
     \<lparr>cart = (0, [\<lparr>id_field = 1, amount = 2\<rparr>, \<lparr>id_field = 2, amount = 1\<rparr>,
                 \<lparr>id_field = 3, amount = 4\<rparr>]),
      stock = (1, Map.empty),
      prevCartRef = Some 0, prevStockRef = Some 1,
      cart_effect_deps = Some (0, 0), stock_effect_deps = Some (1, 1),
      localStorage = Some ''[{"id":1,"amount":2},{"id":2,"amount":1},{"id":3,"amount":4}]'',
      next_ref = 2\<rparr>\<close>

text \<open>The objects of the store with three items: the array \<open>[0, 1, 2]\<close> of references
  into this memory is its cart.\<close>

definition stocked_memory :: "unit memory" where
  "stocked_memory =
     \<lparr>objects = (\<lambda>r. if r = 0 then \<lparr>id_field = 1, amount = 2\<rparr>
                     else if r = 1 then \<lparr>id_field = 2, amount = 1\<rparr>
                     else \<lparr>id_field = 3, amount = 4\<rparr>),
      next_object = 3, toasts = [], setCart_calls = []\<rparr>"

subsection \<open>Amounts that are not integers\<close>

text \<open>
  The parameter \<^verbatim>\<open>amount\<close> of \<^verbatim>\<open>updateProductAmount\<close> is a JavaScript \<^verbatim>\<open>number\<close>, and
  \<^verbatim>\<open>NaN\<close> is one; a field read back from JSON can also hold \<^verbatim>\<open>null\<close>. For the calls
  with such an amount the operation is read again from the same lines of the source over
  items whose amount is an integer, \<^verbatim>\<open>NaN\<close> or \<^verbatim>\<open>null\<close>. \<^verbatim>\<open>a < b\<close> converts both sides
  to numbers (\<^verbatim>\<open>null\<close> to 0) and is false when one of them is \<^verbatim>\<open>NaN\<close>.
  \<^verbatim>\<open>JSON.stringify\<close> writes \<^verbatim>\<open>NaN\<close> as \<^verbatim>\<open>null\<close>.
\<close>

datatype amount_value = Number int | NaN | Null

record Product_wide =
  id_wide :: int
  amount_wide :: amount_value

fun ToNumber :: "amount_value \<Rightarrow> int option" where
  "ToNumber (Number i) = Some i"
| "ToNumber NaN = None"
| "ToNumber Null = Some 0"

definition less_than :: "amount_value \<Rightarrow> amount_value \<Rightarrow> bool" where
  "less_than a b =
     (case ToNumber a of
        None \<Rightarrow> False
      | Some x \<Rightarrow> (case ToNumber b of None \<Rightarrow> False | Some y \<Rightarrow> x < y))"

definition updateProductAmount_wide ::
  "'z api \<Rightarrow> Product_wide list \<Rightarrow> int \<Rightarrow> amount_value \<Rightarrow> Product_wide action" where
  "updateProductAmount_wide remote c productId amount' =
     (if less_than amount' (Number 1) then toast_error Erro_na_alteracao_de_quantidade_do_produto
      else case getStock remote productId of
        Inl e \<Rightarrow> toast_error Erro_na_alteracao_de_quantidade_do_produto
      | Inr s \<Rightarrow>
          if less_than (Number (Stock.amount s)) amount'
          then toast_error Quantidade_solicitada_fora_de_estoque
          else (let updatedCart = c in
                case find (\<lambda>product. id_wide product = productId) updatedCart of
                  None \<Rightarrow> toast_error Erro_na_alteracao_de_quantidade_do_produto
                | Some productExists \<Rightarrow>
                    setCart (assign_found (\<lambda>product. id_wide product = productId)
                               (\<lambda>p. p\<lparr>amount_wide := amount'\<rparr>) updatedCart)))"

definition show_amount :: "amount_value \<Rightarrow> string" where
  "show_amount v = (case v of Number i \<Rightarrow> show_int i | NaN \<Rightarrow> ''null'' | Null \<Rightarrow> ''null'')"

definition stringify_item_wide :: "Product_wide \<Rightarrow> string" where
  \<open>stringify_item_wide p =
     ''{"id":'' @ show_int (id_wide p) @ '',"amount":'' @ show_amount (amount_wide p) @ ''}''\<close>

definition stringify_wide :: "Product_wide list \<Rightarrow> string" where
  "stringify_wide c = ''['' @ join_comma (map stringify_item_wide c) @ '']''"

definition read_amount :: "string \<Rightarrow> (amount_value \<times> string) option" where
  "read_amount s =
     (case expect ''null'' s of
        Some r \<Rightarrow> Some (Null, r)
      | None \<Rightarrow> map_option (\<lambda>(i, r). (Number i, r)) (read_int s))"

definition read_item_wide :: "string \<Rightarrow> (Product_wide \<times> string) option" where
  \<open>read_item_wide s =
     Option.bind (expect ''{"id":'' s) (\<lambda>s1.
     Option.bind (read_int s1) (\<lambda>(i, s2).
     Option.bind (expect '',"amount":'' s2) (\<lambda>s3.
     Option.bind (read_amount s3) (\<lambda>(a, s4).
     map_option (\<lambda>s5. (\<lparr>id_wide = i, amount_wide = a\<rparr>, s5)) (expect ''}'' s4)))))\<close>

fun read_items_wide :: "nat \<Rightarrow> string \<Rightarrow> Product_wide list option" where
  "read_items_wide 0 s = None"
| "read_items_wide (Suc n) s =
     (if s = '']'' then Some []
      else Option.bind (expect '','' s) (\<lambda>s1.
           Option.bind (read_item_wide s1) (\<lambda>(p, s2).
           map_option ((#) p) (read_items_wide n s2))))"

definition parse_wide :: "string \<Rightarrow> error + Product_wide list" where
  "parse_wide s =
     (case expect ''['' s of
        None \<Rightarrow> Inl SyntaxError
      | Some s1 \<Rightarrow>
          if s1 = '']'' then Inr []
          else (case read_item_wide s1 of
                  None \<Rightarrow> Inl SyntaxError
                | Some (p, s2) \<Rightarrow>
                    (case read_items_wide (Suc (length s2)) s2 of
                       None \<Rightarrow> Inl SyntaxError
                     | Some ps \<Rightarrow> Inr (p # ps))))"

text \<open>An item with an integer amount, as an item of the wider kind.\<close>

definition widen :: "Product \<Rightarrow> Product_wide" where
  "widen p = \<lparr>id_wide = id_field p, amount_wide = Number (amount p)\<rparr>"

subsection \<open>Predicates on stores\<close>

text \<open>
  \<open>settled\<close>: the refs hold the references of the current render, the cart effect last
  ran for the current cart, references in use are below \<open>next_ref\<close>, and the stock
  snapshot is the object of the first render. \<open>mirrored\<close>: the slot still holds the
  value the cart was read from, or the serialisation of the current cart.
\<close>

definition settled :: "'z CartProvider \<Rightarrow> bool" where
  "settled st \<longleftrightarrow>
     prevCartRef st = Some (fst (cart st)) \<and>
     prevStockRef st = Some (fst (stock st)) \<and>
     map_option fst (cart_effect_deps st) = Some (fst (cart st)) \<and>
     fst (cart st) < next_ref st \<and>
     stock st = (1, Map.empty)"

definition mirrored :: "'z platform \<Rightarrow> 'z CartProvider \<Rightarrow> bool" where
  "mirrored pf st \<longleftrightarrow>
     initial_cart pf (localStorage st) = Inr (snd (cart st)) \<or>
     localStorage st = Some (JSON_stringify pf (snd (cart st)))"

subsection \<open>Calls on the memory, and the failure conditions of the specification\<close>

fun invoke_heap :: "'z api \<Rightarrow> nat list \<Rightarrow> call \<Rightarrow> 'z memory \<Rightarrow> 'z memory" where
  "invoke_heap remote items (AddProduct productId) m = addProduct_heap remote items productId m"
| "invoke_heap remote items (RemoveProduct productId) m = removeProduct_heap items productId m"
| "invoke_heap remote items (UpdateProductAmount productId amount') m =
     updateProductAmount_heap remote items productId amount' m"

text \<open>
  The conditions under which the specification says a call fails, on the inputs of the
  call (written from the specification, to be compared with the code): for
  \<^verbatim>\<open>addProduct\<close>, the product request fails or finds nothing, or the product is in the
  cart and the stock request fails or the item's amount has reached the stock; for
  \<^verbatim>\<open>removeProduct\<close>, the product is not in the cart; for \<^verbatim>\<open>updateProductAmount\<close>, the
  amount is below one, or the stock request fails, or the stock is below the amount, or
  the product is not in the cart.
\<close>

fun failure_condition :: "'z api \<Rightarrow> 'z Product_scheme list \<Rightarrow> call \<Rightarrow> bool" where
  "failure_condition remote c (AddProduct productId) =
     (case getProduct remote productId of
        Inl e \<Rightarrow> True
      | Inr None \<Rightarrow> True
      | Inr (Some product) \<Rightarrow>
          (case find (\<lambda>item. id_field item = productId) c of
             None \<Rightarrow> False
           | Some item \<Rightarrow>
               (case getStock remote productId of
                  Inl e \<Rightarrow> True
                | Inr s \<Rightarrow> Stock.amount s \<le> amount item)))"
| "failure_condition remote c (RemoveProduct productId) = (productId \<notin> id_field ` set c)"
| "failure_condition remote c (UpdateProductAmount productId amount') =
     (amount' < 1 \<or>
      (case getStock remote productId of
         Inl e \<Rightarrow> True
       | Inr s \<Rightarrow> Stock.amount s < amount' \<or> productId \<notin> id_field ` set c))"

text \<open>For the proof that \<open>parse_cart\<close> reads back what \<open>stringify_cart\<close> wrote: the
  decimal digit of a number below ten, a rest of the input at which a number ends, and
  the text of a cart after its first item.\<close>

definition digit_char :: "nat \<Rightarrow> char" where
  "digit_char d = ''0123456789'' ! d"

definition no_digit_ahead :: "string \<Rightarrow> bool" where
  "no_digit_ahead r = (case r of [] \<Rightarrow> True | c # cs \<Rightarrow> digit_val c = None)"

definition more_items :: "Product list \<Rightarrow> string" where
  "more_items ps = concat (map (\<lambda>p. '','' @ stringify_item p) ps) @ '']''"

section \<open>Lemmas\<close>

subsection \<open>Render passes and reachable stores\<close>

lemma invoke_not_setStock: "invoke remote c cl \<noteq> setStock m"
  by (cases cl)
     (auto simp: addProduct_def removeProduct_def updateProductAmount_def Let_def
           split: sum.splits option.splits)

lemma render_init:
  assumes "CartProvider_init pf slot = Inr st0"
  shows "\<not> snd (render pf st0)" and "settled (fst (render pf st0))"
    and "localStorage (fst (render pf st0)) = slot"
    and "initial_cart pf slot = Inr (snd (cart (fst (render pf st0))))"
  using assms
  by (auto simp: CartProvider_init_def render_def settled_def Let_def split: sum.splits)

lemma render_settled:
  assumes "settled st"
  shows "\<not> snd (render pf st)" and "fst (render pf st) = st\<lparr>cart_effect_deps := Some (fst (cart st), fst (cart st)), stock_effect_deps := Some (1, 1)\<rparr>"
  using assms
  by (auto simp: render_def settled_def Let_def)

lemma render_set_cart:
  assumes "settled st"
  shows "\<not> snd (render pf (set_cart c st))"
    and "settled (fst (render pf (set_cart c st)))"
    and "cart (fst (render pf (set_cart c st))) = (next_ref st, c)"
    and "localStorage (fst (render pf (set_cart c st))) = Some (JSON_stringify pf c)"
  using assms
  by (auto simp: render_def settled_def set_cart_def Let_def)

lemma rerender_set_cart:
  assumes "settled st"
  shows "rerender (Suc n) remote pf (set_cart c st) = Some (fst (render pf (set_cart c st)))"
  using render_set_cart(1)[OF assms, of pf c]
  by (simp add: case_prod_beta)

lemma rerender_init:
  assumes "CartProvider_init pf slot = Inr st0"
  shows "rerender (Suc n) remote pf st0 = Some (fst (render pf st0))"
  using render_init(1)[OF assms]
  by (simp add: case_prod_beta)

lemma dispatch_commit:
  assumes "settled st" and "invoke remote (snd (cart st)) cl = setCart c"
  shows "dispatch (Suc n) remote pf st cl = Some (fst (render pf (set_cart c st)))"
  using assms rerender_set_cart[OF assms(1)] by (simp add: dispatch_def)

lemma dispatch_toast:
  assumes "invoke remote (snd (cart st)) cl = toast_error m"
  shows "dispatch n remote pf st cl = Some st"
  using assms by (simp add: dispatch_def)

lemma dispatch_cases:
  assumes "settled st" and "dispatch n remote pf st cl = Some st'"
  shows "(\<exists>m. invoke remote (snd (cart st)) cl = toast_error m \<and> st' = st) \<or>
         (\<exists>c. invoke remote (snd (cart st)) cl = setCart c \<and> st' = fst (render pf (set_cart c st)))"
proof (cases "invoke remote (snd (cart st)) cl")
  case (setCart c)
  from assms(2) setCart obtain k where n: "n = Suc k"
    by (cases n) (auto simp: dispatch_def)
  with dispatch_commit[OF assms(1) setCart, of k pf] assms(2) setCart show ?thesis by simp
next
  case (setStock m)
  then show ?thesis using invoke_not_setStock by blast
next
  case (toast_error m)
  with dispatch_toast[OF toast_error, of n pf] assms(2) show ?thesis by simp
qed

lemma reachable_settled: "reachable pf st \<Longrightarrow> settled st \<and> mirrored pf st"
proof (induction rule: reachable.induct)
  case (mount slot st0 n remote st)
  from mount(2) obtain k where "n = Suc k" by (cases n) auto
  with mount rerender_init[OF mount(1), of k remote] have "st = fst (render pf st0)" by simp
  with render_init[OF mount(1)] show ?case by (simp add: mirrored_def)
next
  case (step st n remote cl st')
  then have s: "settled st" and m: "mirrored pf st" by simp_all
  from dispatch_cases[OF s step(2)] show ?case
  proof (elim disjE exE conjE)
    fix m assume "st' = st" with s m show ?thesis by simp
  next
    fix c assume "st' = fst (render pf (set_cart c st))"
    with render_set_cart[OF s, of pf c] show ?thesis by (simp add: mirrored_def)
  qed
qed

lemma reachable_fresh_store: "reachable json_text fresh_store"
proof -
  have i: "CartProvider_init json_text None =
      Inr \<lparr>cart = (0, []), stock = (1, Map.empty), prevCartRef = None, prevStockRef = None,
           cart_effect_deps = None, stock_effect_deps = None, localStorage = None, next_ref = 2\<rparr>"
    by (simp add: CartProvider_init_def initial_cart_def)
  have "rerender (Suc 0) (shop 0) json_text \<lparr>cart = (0, []), stock = (1, Map.empty), prevCartRef = None, prevStockRef = None,
           cart_effect_deps = None, stock_effect_deps = None, localStorage = None, next_ref = 2\<rparr> = Some fresh_store"
    by (simp add: render_def fresh_store_def Let_def)
  with i show ?thesis by (rule reachable.mount)
qed

subsection \<open>The scenario stores are reachable\<close>

lemma stringify_one_item:
  \<open>stringify_cart [\<lparr>id_field = 1, amount = 1\<rparr>] = ''[{"id":1,"amount":1}]''\<close>
  by code_simp

lemma parse_one_item:
  \<open>parse_cart ''[{"id":1,"amount":1}]'' = Inr [\<lparr>id_field = 1, amount = 1\<rparr>]\<close>
  by code_simp

lemma parse_three_items:
  \<open>parse_cart ''[{"id":1,"amount":2},{"id":2,"amount":1},{"id":3,"amount":4}]'' =
     Inr [\<lparr>id_field = 1, amount = 2\<rparr>, \<lparr>id_field = 2, amount = 1\<rparr>, \<lparr>id_field = 3, amount = 4\<rparr>]\<close>
  by code_simp

lemma add_to_fresh_store:
  "dispatch (Suc 0) (shop k) json_text fresh_store (AddProduct 1) = Some one_item_store"
  by (simp add: dispatch_def addProduct_def getProduct_def shop_def fresh_store_def
        set_cart_def render_def Let_def one_item_store_def json_text_def stringify_one_item)

lemma reachable_one_item_store: "reachable json_text one_item_store"
  using reachable_fresh_store add_to_fresh_store by (rule reachable.step)

lemma reachable_stocked_store: "reachable json_text stocked_store"
proof -
  let ?st0 = "stocked_store\<lparr>prevCartRef := None, prevStockRef := None,
                cart_effect_deps := None, stock_effect_deps := None\<rparr>"
  have "CartProvider_init json_text (localStorage stocked_store) = Inr ?st0"
    by (simp add: CartProvider_init_def initial_cart_def json_text_def stocked_store_def
          parse_three_items)
  moreover have "rerender (Suc 0) (shop 0) json_text ?st0 = Some stocked_store"
    by (simp add: render_def stocked_store_def Let_def)
  ultimately show ?thesis by (rule reachable.mount)
qed

lemma assign_found_nth:
  "i < length xs \<Longrightarrow> P (xs ! i) \<Longrightarrow> \<forall>j<i. \<not> P (xs ! j)
   \<Longrightarrow> assign_found P f xs = xs[i := f (xs ! i)]"
proof (induction xs arbitrary: i)
  case Nil
  then show ?case by simp
next
  case (Cons x xs)
  show ?case
  proof (cases i)
    case 0
    with Cons.prems show ?thesis by simp
  next
    case (Suc k)
    with Cons.prems have "\<not> P x" by auto
    moreover from Suc Cons.prems have "assign_found P f xs = xs[k := f (xs ! k)]"
      by (intro Cons.IH) auto
    ultimately show ?thesis using Suc by simp
  qed
qed

lemma findIndex_from_absent: "\<forall>x\<in>set xs. \<not> P x \<Longrightarrow> findIndex_from k P xs = -1"
  by (induction xs arbitrary: k) auto

lemma findIndex_from_nth:
  "i < length xs \<Longrightarrow> P (xs ! i) \<Longrightarrow> \<forall>j<i. \<not> P (xs ! j)
   \<Longrightarrow> findIndex_from k P xs = k + int i"
proof (induction xs arbitrary: i k)
  case Nil
  then show ?case by simp
next
  case (Cons x xs)
  show ?case
  proof (cases i)
    case 0
    with Cons.prems show ?thesis by simp
  next
    case (Suc j)
    with Cons.prems have "\<not> P x" by auto
    moreover from Suc Cons.prems have "findIndex_from (k + 1) P xs = (k + 1) + int j"
      by (intro Cons.IH) auto
    ultimately show ?thesis using Suc by simp
  qed
qed

lemma first_index:
  assumes "\<exists>x\<in>set xs. P x"
  obtains i where "i < length xs" and "P (xs ! i)" and "\<forall>j<i. \<not> P (xs ! j)"
    and "find P xs = Some (xs ! i)"
proof -
  from assms obtain x where "find P xs = Some x"
    by (cases "find P xs") (auto simp: find_None_iff)
  then obtain i where "i < length xs" "P (xs ! i)" "x = xs ! i" "\<forall>j<i. \<not> P (xs ! j)"
    by (auto simp: find_Some_iff)
  with \<open>find P xs = Some x\<close> that show thesis by blast
qed

subsection \<open>The failure paths of the two operations that fetch\<close>

text \<open>Each condition under which \<^verbatim>\<open>addProduct\<close> and \<^verbatim>\<open>updateProductAmount\<close> end in a
  toast instead of \<^verbatim>\<open>setCart\<close>, stated on their inputs (the out-of-stock refusal of
  \<^verbatim>\<open>addProduct\<close> and the failure of \<^verbatim>\<open>removeProduct\<close> are part of C4 and C7).\<close>

lemma addProduct_failures:
  "getProduct remote productId = Inl e
     \<Longrightarrow> addProduct remote c productId = toast_error Erro_na_adicao_do_produto"
  "getProduct remote productId = Inr None
     \<Longrightarrow> addProduct remote c productId = toast_error Erro_na_adicao_do_produto"
  "getProduct remote productId = Inr (Some product) \<Longrightarrow> productId \<in> id_field ` set c
     \<Longrightarrow> getStock remote productId = Inl e
     \<Longrightarrow> addProduct remote c productId = toast_error Erro_na_adicao_do_produto"
  by (auto simp: addProduct_def find_None_iff split: option.splits)

lemma updateProductAmount_failures:
  "1 \<le> amount' \<Longrightarrow> getStock remote productId = Inl e
     \<Longrightarrow> updateProductAmount remote c productId amount'
           = toast_error Erro_na_alteracao_de_quantidade_do_produto"
  "1 \<le> amount' \<Longrightarrow> getStock remote productId = Inr stock' \<Longrightarrow> Stock.amount stock' < amount'
     \<Longrightarrow> updateProductAmount remote c productId amount'
           = toast_error Quantidade_solicitada_fora_de_estoque"
  "1 \<le> amount' \<Longrightarrow> getStock remote productId = Inr stock' \<Longrightarrow> amount' \<le> Stock.amount stock'
     \<Longrightarrow> productId \<notin> id_field ` set c
     \<Longrightarrow> updateProductAmount remote c productId amount'
           = toast_error Erro_na_alteracao_de_quantidade_do_produto"
  by (auto simp: updateProductAmount_def find_None_iff split: option.splits)

lemma updateProductAmount_commits:
  "1 \<le> amount' \<Longrightarrow> getStock remote productId = Inr stock' \<Longrightarrow> amount' \<le> Stock.amount stock'
     \<Longrightarrow> productId \<in> id_field ` set c
     \<Longrightarrow> updateProductAmount remote c productId amount'
           = setCart (assign_found (\<lambda>product. id_field product = productId)
                        (\<lambda>p. p\<lparr>amount := amount'\<rparr>) c)"
  by (auto simp: updateProductAmount_def find_None_iff split: option.splits)

subsection \<open>The operations on the memory and on values\<close>

lemma find_map_objects:
  "find P (map f xs) = map_option f (find (\<lambda>x. P (f x)) xs)"
  by (induction xs) auto

lemma find_Some_member: "find P xs = Some x \<Longrightarrow> x \<in> set xs \<and> P x"
  by (auto simp: find_Some_iff)

lemma findIndex_from_map:
  "findIndex_from k P (map f xs) = findIndex_from k (\<lambda>x. P (f x)) xs"
  by (induction xs arbitrary: k) auto

lemma findIndex_map: "findIndex P (map f xs) = findIndex (\<lambda>x. P (f x)) xs"
  by (simp add: findIndex_def findIndex_from_map)

lemma findIndex_from_range: "0 \<le> k \<Longrightarrow> findIndex_from k P xs = -1 \<or> 0 \<le> findIndex_from k P xs"
  by (induction xs arbitrary: k) auto

lemma findIndex_negative_iff: "findIndex P xs < 0 \<longleftrightarrow> (\<forall>x\<in>set xs. \<not> P x)"
proof
  assume "findIndex P xs < 0"
  show "\<forall>x\<in>set xs. \<not> P x"
  proof (rule ccontr)
    assume "\<not> (\<forall>x\<in>set xs. \<not> P x)"
    then have "\<exists>x\<in>set xs. P x" by blast
    then obtain i where "i < length xs" "P (xs ! i)" "\<forall>j<i. \<not> P (xs ! j)"
      by (rule first_index)
    then have "findIndex P xs = int i"
      unfolding findIndex_def using findIndex_from_nth [of i xs P 0] by simp
    with \<open>findIndex P xs < 0\<close> show False by simp
  qed
next
  assume "\<forall>x\<in>set xs. \<not> P x"
  then show "findIndex P xs < 0"
    unfolding findIndex_def by (simp add: findIndex_from_absent)
qed

text \<open>The operations on the memory against the operations on values: a toast on the
  memory is a toast on the values, under the conditions of the specification, and no
  object is written before it.\<close>

lemma addProduct_heap_failure:
  assumes "c = map (objects m) items"
  shows "(toasts (addProduct_heap remote items productId m) \<noteq> toasts m
            \<longleftrightarrow> failure_condition remote c (AddProduct productId))
       \<and> (toasts (addProduct_heap remote items productId m) \<noteq> toasts m \<longrightarrow>
            objects (addProduct_heap remote items productId m) = objects m
          \<and> next_object (addProduct_heap remote items productId m) = next_object m
          \<and> setCart_calls (addProduct_heap remote items productId m) = setCart_calls m
          \<and> (\<exists>msg. toasts (addProduct_heap remote items productId m) = toasts m @ [msg]
                 \<and> addProduct remote c productId = toast_error msg))"
  unfolding assms
  by (auto simp: addProduct_heap_def addProduct_try_def addProduct_def toast_call_def
        setCart_call_def new_object_def write_amount_def find_map_objects Let_def
      split: sum.splits option.splits)

lemma removeProduct_heap_failure:
  assumes "c = map (objects m) items"
  shows "(toasts (removeProduct_heap items productId m) \<noteq> toasts m
            \<longleftrightarrow> failure_condition remote c (RemoveProduct productId))
       \<and> (toasts (removeProduct_heap items productId m) \<noteq> toasts m \<longrightarrow>
            objects (removeProduct_heap items productId m) = objects m
          \<and> next_object (removeProduct_heap items productId m) = next_object m
          \<and> setCart_calls (removeProduct_heap items productId m) = setCart_calls m
          \<and> (\<exists>msg. toasts (removeProduct_heap items productId m) = toasts m @ [msg]
                 \<and> removeProduct c productId = toast_error msg))"
proof -
  have neg: "findIndex (\<lambda>product. id_field (objects m product) = productId) items < 0
        \<longleftrightarrow> productId \<notin> id_field ` set (map (objects m) items)"
    by (auto simp: findIndex_negative_iff)
  show ?thesis
    unfolding assms
    using neg
    by (auto simp: removeProduct_heap_def removeProduct_try_def removeProduct_def toast_call_def
          setCart_call_def findIndex_map Let_def)
qed

lemma updateProductAmount_heap_failure:
  assumes "c = map (objects m) items"
  shows "(toasts (updateProductAmount_heap remote items productId amount' m) \<noteq> toasts m
            \<longleftrightarrow> failure_condition remote c (UpdateProductAmount productId amount'))
       \<and> (toasts (updateProductAmount_heap remote items productId amount' m) \<noteq> toasts m \<longrightarrow>
            objects (updateProductAmount_heap remote items productId amount' m) = objects m
          \<and> next_object (updateProductAmount_heap remote items productId amount' m) = next_object m
          \<and> setCart_calls (updateProductAmount_heap remote items productId amount' m) = setCart_calls m
          \<and> (\<exists>msg. toasts (updateProductAmount_heap remote items productId amount' m) = toasts m @ [msg]
                 \<and> updateProductAmount remote c productId amount' = toast_error msg))"
  unfolding assms
  by (auto simp: updateProductAmount_heap_def updateProductAmount_try_def updateProductAmount_def
        toast_call_def setCart_call_def write_amount_def find_map_objects find_None_iff Let_def
      split: sum.splits option.splits dest: find_Some_member)

text \<open>A commit on the memory is the commit on the values, when no object occurs twice
  in the array of the cart.\<close>

lemma map_write_found:
  assumes "distinct items"
    and "find (\<lambda>r. P (h r)) items = Some a"
  shows "map (h(a := f (h a))) items = assign_found P f (map h items)"
  using assms
proof (induction items)
  case Nil
  then show ?case by simp
next
  case (Cons r rs)
  show ?case
  proof (cases "P (h r)")
    case True
    with Cons.prems have "a = r" and "r \<notin> set rs" by simp_all
    then have "map (h(a := f (h a))) rs = map h rs" by (intro map_cong) auto
    with True \<open>a = r\<close> show ?thesis by simp
  next
    case False
    with Cons.prems have f: "find (\<lambda>r. P (h r)) rs = Some a" and "distinct rs" by simp_all
    then have "a \<in> set rs \<and> P (h a)" by (intro find_Some_member)
    with Cons.prems have "a \<noteq> r" by auto
    with False Cons.IH [OF \<open>distinct rs\<close> f] show ?thesis by simp
  qed
qed

lemma addProduct_heap_commit:
  assumes "c = map (objects m) items"
    and "distinct items" and "\<forall>r\<in>set items. r < next_object m"
    and "addProduct remote c productId = setCart c'"
  shows "\<exists>items'. setCart_calls (addProduct_heap remote items productId m) = setCart_calls m @ [items']
           \<and> map (objects (addProduct_heap remote items productId m)) items' = c'
           \<and> toasts (addProduct_heap remote items productId m) = toasts m
           \<and> distinct items'
           \<and> (\<forall>r\<in>set items'. r < next_object (addProduct_heap remote items productId m))"
proof (cases "find (\<lambda>cartProduct. id_field (objects m cartProduct) = productId) items")
  case None
  then have "find (\<lambda>cartProduct. id_field cartProduct = productId) c = None"
    by (simp add: assms(1) find_map_objects)
  with assms(4) obtain response where g: "getProduct remote productId = Inr (Some response)"
    and c': "c' = c @ [response\<lparr>amount := 1\<rparr>]"
    by (auto simp: addProduct_def Let_def split: sum.splits option.splits)
  from assms(3) have fresh: "next_object m \<notin> set items" by auto
  then have "map ((objects m)(next_object m := x)) items = map (objects m) items" for x
    by (intro map_cong) auto
  with None g c' assms(1,2,3) fresh show ?thesis
    by (auto simp: addProduct_heap_def addProduct_try_def new_object_def write_amount_def
          setCart_call_def Let_def less_Suc_eq)
next
  case (Some a)
  then have "find (\<lambda>cartProduct. id_field cartProduct = productId) c = Some (objects m a)"
    by (simp add: assms(1) find_map_objects)
  with assms(4) obtain response stock' where g: "getProduct remote productId = Inr (Some response)"
    and s: "getStock remote productId = Inr stock'"
    and lt: "amount (objects m a) < Stock.amount stock'"
    and c': "c' = assign_found (\<lambda>cartProduct. id_field cartProduct = productId)
                    (\<lambda>p. p\<lparr>amount := amount p + 1\<rparr>) c"
    by (auto simp: addProduct_def Let_def split: sum.splits option.splits if_splits)
  from map_write_found [OF assms(2), of "\<lambda>p. id_field p = productId" "objects m" a
      "\<lambda>p. p\<lparr>amount := amount p + 1\<rparr>"] Some
  have "map ((objects m)(a := (objects m a)\<lparr>amount := amount (objects m a) + 1\<rparr>)) items = c'"
    by (simp add: c' assms(1))
  with Some g s lt assms(2,3) show ?thesis
    by (auto simp: addProduct_heap_def addProduct_try_def write_amount_def setCart_call_def Let_def)
qed

lemma removeProduct_heap_commit:
  assumes "c = map (objects m) items"
    and "distinct items" and "\<forall>r\<in>set items. r < next_object m"
    and "removeProduct c productId = setCart c'"
  shows "\<exists>items'. setCart_calls (removeProduct_heap items productId m) = setCart_calls m @ [items']
           \<and> map (objects (removeProduct_heap items productId m)) items' = c'
           \<and> toasts (removeProduct_heap items productId m) = toasts m
           \<and> distinct items'
           \<and> (\<forall>r\<in>set items'. r < next_object (removeProduct_heap items productId m))"
proof -
  let ?i = "findIndex (\<lambda>product. id_field (objects m product) = productId) items"
  from assms(4) have i: "\<not> ?i < 0" and c': "c' = splice1 (nat ?i) c"
    by (auto simp: removeProduct_def assms(1) findIndex_map Let_def split: if_splits)
  have "set (splice1 (nat ?i) items) \<subseteq> set items"
    by (auto simp: splice1_def dest: in_set_takeD in_set_dropD)
  moreover have "distinct (splice1 (nat ?i) items)"
    using assms(2) set_take_disj_set_drop_if_distinct [of items "nat ?i" "Suc (nat ?i)"]
    by (simp add: splice1_def)
  ultimately show ?thesis using i c' assms(1,3)
    by (auto simp: removeProduct_heap_def removeProduct_try_def setCart_call_def Let_def
          splice1_def take_map drop_map)
qed

lemma updateProductAmount_heap_commit:
  assumes "c = map (objects m) items"
    and "distinct items" and "\<forall>r\<in>set items. r < next_object m"
    and "updateProductAmount remote c productId amount' = setCart c'"
  shows "\<exists>items'. setCart_calls (updateProductAmount_heap remote items productId amount' m)
               = setCart_calls m @ [items']
           \<and> map (objects (updateProductAmount_heap remote items productId amount' m)) items' = c'
           \<and> toasts (updateProductAmount_heap remote items productId amount' m) = toasts m
           \<and> distinct items'
           \<and> (\<forall>r\<in>set items'.
                 r < next_object (updateProductAmount_heap remote items productId amount' m))"
proof -
  have fm: "find (\<lambda>product. id_field product = productId) c
              = map_option (objects m)
                  (find (\<lambda>product. id_field (objects m product) = productId) items)"
    by (simp add: assms(1) find_map_objects)
  from assms(4) obtain stock' a where ge: "\<not> amount' < 1"
    and s: "getStock remote productId = Inr stock'" and le: "\<not> Stock.amount stock' < amount'"
    and f: "find (\<lambda>product. id_field (objects m product) = productId) items = Some a"
    and c': "c' = assign_found (\<lambda>product. id_field product = productId)
                    (\<lambda>p. p\<lparr>amount := amount'\<rparr>) c"
    by (auto simp: updateProductAmount_def fm Let_def
          split: sum.splits option.splits if_splits)
  from map_write_found [OF assms(2), of "\<lambda>p. id_field p = productId" "objects m" a
      "\<lambda>p. p\<lparr>amount := amount'\<rparr>"] f
  have "map ((objects m)(a := (objects m a)\<lparr>amount := amount'\<rparr>)) items = c'"
    by (simp add: c' assms(1))
  with ge s le f assms(2,3) show ?thesis
    by (auto simp: updateProductAmount_heap_def updateProductAmount_try_def write_amount_def
          setCart_call_def Let_def)
qed

subsection \<open>The operation on wider amounts agrees with the one on integers\<close>

lemma assign_found_map:
  assumes "\<And>x. Q (g x) = P x" and "\<And>x. g (f x) = f' (g x)"
  shows "assign_found Q f' (map g xs) = map g (assign_found P f xs)"
  by (induction xs) (simp_all add: assms)

lemma updateProductAmount_wide_integer:
  "updateProductAmount_wide remote (map widen c) productId (Number amount')
     = map_action widen (updateProductAmount remote c productId amount')"
proof -
  have f: "find (\<lambda>product. id_wide product = productId) (map widen c)
             = map_option widen (find (\<lambda>product. id_field product = productId) c)"
    by (simp add: find_map_objects widen_def)
  have a: "assign_found (\<lambda>product. id_wide product = productId)
             (\<lambda>p. p\<lparr>amount_wide := Number amount'\<rparr>) (map widen c)
           = map widen (assign_found (\<lambda>product. id_field product = productId)
                          (\<lambda>p. p\<lparr>amount := amount'\<rparr>) c)"
    by (rule assign_found_map) (simp_all add: widen_def)
  show ?thesis
    by (simp add: updateProductAmount_wide_def updateProductAmount_def less_than_def f a Let_def
          split: sum.splits option.splits)
qed

lemma stringify_wide_integer: "stringify_wide (map widen c) = stringify_cart c"
proof -
  have "stringify_item_wide (widen p) = stringify_item p" for p
    by (simp add: stringify_item_wide_def stringify_item_def widen_def show_amount_def)
  then show ?thesis by (simp add: stringify_wide_def stringify_cart_def comp_def)
qed

subsection \<open>The parser reads back what the serialiser wrote\<close>

lemma show_nat_digits:
  "show_nat n = (if n < 10 then [digit_char n]
                 else show_nat (n div 10) @ [digit_char (n mod 10)])"
  by (simp add: show_nat.simps [of n] digit_char_def)

lemma digit_val_digit: "d < 10 \<Longrightarrow> digit_val (digit_char d) = Some d"
proof -
  assume "d < 10"
  then consider "d = 0" | "d = 1" | "d = 2" | "d = 3" | "d = 4" | "d = 5" | "d = 6"
    | "d = 7" | "d = 8" | "d = 9"
    by atomize_elim presburger
  then show ?thesis by cases (simp_all add: digit_val_def digit_char_def)
qed

lemma digit_not_minus: "d < 10 \<Longrightarrow> digit_char d \<noteq> CHR ''-''"
proof -
  assume "d < 10"
  then consider "d = 0" | "d = 1" | "d = 2" | "d = 3" | "d = 4" | "d = 5" | "d = 6"
    | "d = 7" | "d = 8" | "d = 9"
    by atomize_elim presburger
  then show ?thesis by cases (simp_all add: digit_char_def)
qed

lemma read_digits_show_nat:
  "read_digits acc (show_nat n @ r) = read_digits (acc * 10 ^ length (show_nat n) + n) r"
proof (induction n arbitrary: acc r rule: show_nat.induct)
  case (1 n)
  show ?case
  proof (cases "n < 10")
    case True
    then show ?thesis by (simp add: show_nat_digits [of n] digit_val_digit mult.commute)
  next
    case False
    have m: "n mod 10 < 10" by simp
    have "read_digits acc (show_nat n @ r)
            = read_digits acc (show_nat (n div 10) @ (digit_char (n mod 10)) # r)"
      using False by (simp add: show_nat_digits [of n])
    also have "\<dots> = read_digits (acc * 10 ^ length (show_nat (n div 10)) + n div 10)
                      ((digit_char (n mod 10)) # r)"
      using False by (rule "1.IH")
    also have "\<dots> = read_digits (10 * (acc * 10 ^ length (show_nat (n div 10)) + n div 10)
                        + n mod 10) r"
      by (simp add: digit_val_digit [OF m])
    also have "10 * (acc * 10 ^ length (show_nat (n div 10)) + n div 10) + n mod 10
                 = acc * 10 ^ length (show_nat n) + n"
      using False by (simp add: show_nat_digits [of n] algebra_simps)
    finally show ?thesis .
  qed
qed

lemma read_digits_stop: "no_digit_ahead r \<Longrightarrow> read_digits k r = (k, r)"
  by (cases r) (simp_all add: no_digit_ahead_def)

lemma show_nat_first:
  "\<exists>d cs. show_nat n = (digit_char d) # cs \<and> d < 10 \<and> (d = 0 \<longrightarrow> n = 0 \<and> cs = [])"
proof (induction n rule: show_nat.induct)
  case (1 n)
  show ?case
  proof (cases "n < 10")
    case True
    then show ?thesis by (auto simp: show_nat_digits [of n] intro!: exI [of _ n])
  next
    case False
    with "1.IH" obtain d cs where d: "show_nat (n div 10) = (digit_char d) # cs" "d < 10"
      "d = 0 \<longrightarrow> n div 10 = 0 \<and> cs = []"
      by blast
    from False have "n div 10 \<noteq> 0" by simp
    with d have "d \<noteq> 0" by blast
    with d False show ?thesis by (auto simp: show_nat_digits [of n] intro!: exI [of _ d])
  qed
qed

lemma read_nat_show_nat:
  assumes "no_digit_ahead r"
  shows "read_nat (show_nat n @ r) = Some (n, r)"
proof -
  obtain d cs where d: "show_nat n = (digit_char d) # cs" "d < 10"
    "d = 0 \<longrightarrow> n = 0 \<and> cs = []"
    using show_nat_first [of n] by blast
  show ?thesis
  proof (cases "d = 0")
    case True
    with d show ?thesis by (simp add: read_nat_def digit_val_digit)
  next
    case False
    have "read_digits 0 (show_nat n @ r) = read_digits d (cs @ r)"
      by (simp add: d digit_val_digit)
    moreover have "read_digits 0 (show_nat n @ r) = (n, r)"
      by (simp add: read_digits_show_nat read_digits_stop [OF assms])
    ultimately show ?thesis using False d by (simp add: read_nat_def digit_val_digit)
  qed
qed

lemma read_int_show_int:
  assumes "no_digit_ahead r"
  shows "read_int (show_int i @ r) = Some (i, r)"
proof (cases "i < 0")
  case True
  then show ?thesis
    by (simp add: read_int_def show_int_def read_nat_show_nat [OF assms])
next
  case False
  obtain d cs where d: "show_nat (nat i) = (digit_char d) # cs" "d < 10"
    using show_nat_first [of "nat i"] by blast
  have "read_nat (show_nat (nat i) @ r) = Some (nat i, r)"
    using assms by (rule read_nat_show_nat)
  with False d digit_not_minus [OF d(2)] show ?thesis
    by (simp add: read_int_def show_int_def)
qed

lemma expect_append: "expect s (s @ r) = Some r"
  by (induction s) simp_all

lemma read_item_stringify_item: "read_item (stringify_item p @ r) = Some (p, r)"
proof -
  have 1: \<open>expect ''{"id":'' (stringify_item p @ r)
            = Some (show_int (id_field p) @ '',"amount":'' @ show_int (amount p) @ ''}'' @ r)\<close>
    unfolding stringify_item_def append_assoc by (rule expect_append)
  have 2: \<open>read_int (show_int (id_field p) @ '',"amount":'' @ show_int (amount p) @ ''}'' @ r)
            = Some (id_field p, '',"amount":'' @ show_int (amount p) @ ''}'' @ r)\<close>
    by (rule read_int_show_int) (simp add: no_digit_ahead_def digit_val_def)
  have 3: \<open>expect '',"amount":'' ('',"amount":'' @ show_int (amount p) @ ''}'' @ r)
            = Some (show_int (amount p) @ ''}'' @ r)\<close>
    by (rule expect_append)
  have 4: "read_int (show_int (amount p) @ ''}'' @ r) = Some (amount p, ''}'' @ r)"
    by (rule read_int_show_int) (simp add: no_digit_ahead_def digit_val_def)
  have 5: "expect ''}'' (''}'' @ r) = Some r"
    by (rule expect_append)
  show ?thesis
    unfolding read_item_def by (simp only: 1 2 3 4 5 Option.bind.simps split option.map) simp
qed

lemma stringify_item_first: \<open>\<exists>cs. stringify_item p = CHR ''{'' # cs\<close>
  by (simp add: stringify_item_def)

lemma read_items_more_items: "length ps < n \<Longrightarrow> read_items n (more_items ps) = Some ps"
proof (induction ps arbitrary: n)
  case Nil
  then obtain k where "n = Suc k" by (cases n) auto
  then show ?case by (simp add: more_items_def)
next
  case (Cons p ps)
  then obtain k where k: "n = Suc k" "length ps < k" by (cases n) auto
  obtain cs where cs: "stringify_item p = CHR ''{'' # cs" using stringify_item_first by blast
  have m: "more_items (p # ps) = '','' @ stringify_item p @ more_items ps"
    by (simp add: more_items_def)
  have "more_items (p # ps) \<noteq> '']''" by (simp add: m)
  moreover have "expect '','' (more_items (p # ps)) = Some (stringify_item p @ more_items ps)"
    unfolding m by (rule expect_append)
  moreover have "read_item (stringify_item p @ more_items ps) = Some (p, more_items ps)"
    by (rule read_item_stringify_item)
  moreover have "read_items k (more_items ps) = Some ps"
    using k(2) by (rule Cons.IH)
  ultimately show ?case by (simp add: k)
qed

lemma join_comma_more_items:
  "join_comma (map stringify_item (p # ps)) @ '']'' = stringify_item p @ more_items ps"
  by (induction ps arbitrary: p) (simp_all add: more_items_def)

lemma length_more_items: "length ps < length (more_items ps)"
  by (induction ps) (simp_all add: more_items_def)

lemma parse_stringify_cart: "parse_cart (stringify_cart c) = Inr c"
proof (cases c)
  case Nil
  then show ?thesis by (simp add: parse_cart_def stringify_cart_def)
next
  case (Cons p ps)
  obtain cs where cs: "stringify_item p = CHR ''{'' # cs" using stringify_item_first by blast
  have s: "stringify_cart c = ''['' @ stringify_item p @ more_items ps"
    using join_comma_more_items [of p ps] by (simp add: stringify_cart_def Cons)
  have 1: "expect ''['' (stringify_cart c) = Some (stringify_item p @ more_items ps)"
    unfolding s by (rule expect_append)
  have 2: "stringify_item p @ more_items ps \<noteq> '']''" by (simp add: cs)
  have 3: "read_item (stringify_item p @ more_items ps) = Some (p, more_items ps)"
    by (rule read_item_stringify_item)
  have 4: "read_items (Suc (length (more_items ps))) (more_items ps) = Some ps"
    using length_more_items [of ps] by (intro read_items_more_items) simp
  show ?thesis
    unfolding parse_cart_def
    by (simp only: 1 2 3 4 option.case if_False prod.case) (simp add: Cons)
qed

text \<open>So after a commit of a cart of integer amounts, from a reachable store, the slot is
  read back as the committed cart.\<close>

lemma integer_cart_is_mirrored:
  assumes "reachable json_text st"
    and "invoke remote (snd (cart st)) cl = setCart c"
  shows "\<exists>st' raw. dispatch (Suc n) remote json_text st cl = Some st'
           \<and> snd (cart st') = c
           \<and> localStorage st' = Some raw
           \<and> JSON_parse json_text raw = Inr c"
proof -
  from assms(1) have s: "settled st" by (simp add: reachable_settled)
  let ?st' = "fst (render json_text (set_cart c st))"
  have "dispatch (Suc n) remote json_text st cl = Some ?st'"
    using s assms(2) by (rule dispatch_commit)
  moreover have "snd (cart ?st') = c"
    using render_set_cart(3) [OF s, of json_text c] by simp
  moreover have "localStorage ?st' = Some (JSON_stringify json_text c)"
    using s by (rule render_set_cart(4))
  moreover have "JSON_parse json_text (JSON_stringify json_text c) = Inr c"
    by (simp add: json_text_def parse_stringify_cart)
  ultimately show ?thesis by blast
qed

section \<open>The claims\<close>

subsection \<open>C1: the stock ceiling\<close>

text \<open>
  Claim C1: in every reachable cart, the amount of every line item is at most the stock
  amount of its product at the time of the last successful \<^verbatim>\<open>addProduct\<close> or
  \<^verbatim>\<open>updateProductAmount\<close> that affected the item.

  The code breaks it on the first add of a product. The branch for a product that is in
  the cart fetches the stock and compares, and so does \<^verbatim>\<open>updateProductAmount\<close>; the
  branch for a product that is not in the cart returns before the stock is fetched. On
  the empty cart, with product 1 resolvable and out of stock (amount 0), \<^verbatim>\<open>addProduct(1)\<close>
  commits the cart with one item of amount 1.
\<close>

theorem first_add_exceeds_stock:
  "map_option (\<lambda>st'. snd (cart st')) (dispatch 1 (shop 0) json_text fresh_store (AddProduct 1))
     = Some [\<lparr>id_field = 1, amount = 1\<rparr>]
   \<and> getStock (shop 0) 1 = Inr \<lparr>Stock.id_field = 1, Stock.amount = 0\<rparr>"
  by (simp add: dispatch_def addProduct_def getProduct_def getStock_def shop_def fresh_store_def
        set_cart_def render_def Let_def)

subsection \<open>C2: a failure changes nothing\<close>

text \<open>
  Claim C2: whenever a call of \<^verbatim>\<open>addProduct\<close>, \<^verbatim>\<open>removeProduct\<close> or
  \<^verbatim>\<open>updateProductAmount\<close> signals a failure, the cart after the call is the cart before
  the call, and nothing is committed or written to the storage slot.

  The call runs on the memory \<open>m\<close> of shared objects, with the array \<open>items\<close> of
  references as the cart of the current render. It signals a failure (a \<^verbatim>\<open>toast.error\<close>
  is added) exactly under the conditions the claim lists: the product is not found or
  its request fails, the stock request fails, the stock is insufficient, the product is
  not in the cart, the amount is below one. When it does, no object has been written, so
  the items of the cart are what they were; \<^verbatim>\<open>setCart\<close> has not been called; and the
  store of the component, with its cart, its refs and its storage slot, is the store
  before the call.
\<close>

theorem failure_leaves_store_unchanged:
  assumes "snd (cart st) = map (objects m) items"
    and "m' = invoke_heap remote items cl m"
  shows "(failure_condition remote (snd (cart st)) cl \<longleftrightarrow> toasts m' \<noteq> toasts m)
       \<and> (toasts m' \<noteq> toasts m \<longrightarrow>
            objects m' = objects m
          \<and> map (objects m') items = snd (cart st)
          \<and> setCart_calls m' = setCart_calls m
          \<and> dispatch n remote pf st cl = Some st)"
proof (cases cl)
  case (AddProduct productId)
  from addProduct_heap_failure [OF assms(1), of remote productId] show ?thesis
    by (auto simp: AddProduct assms dispatch_def)
next
  case (RemoveProduct productId)
  from removeProduct_heap_failure [OF assms(1), of productId remote] show ?thesis
    by (auto simp: RemoveProduct assms dispatch_def)
next
  case (UpdateProductAmount productId amount')
  from updateProductAmount_heap_failure [OF assms(1), of remote productId amount'] show ?thesis
    by (auto simp: UpdateProductAmount assms dispatch_def)
qed

text \<open>On the store with three items and two units in stock: adding product 1, whose item
  already has amount 2, and removing product 9, which is not in the cart, fail and leave
  objects, cart and store as they were; adding product 2 is no failure.\<close>

theorem failure_leaves_store_unchanged_witness:
  "snd (cart stocked_store) = map (objects stocked_memory) [0, 1, 2]
   \<and> failure_condition (shop 2) (snd (cart stocked_store)) (AddProduct 1)
   \<and> toasts (invoke_heap (shop 2) [0, 1, 2] (AddProduct 1) stocked_memory)
        = [Quantidade_solicitada_fora_de_estoque]
   \<and> objects (invoke_heap (shop 2) [0, 1, 2] (AddProduct 1) stocked_memory)
        = objects stocked_memory
   \<and> setCart_calls (invoke_heap (shop 2) [0, 1, 2] (AddProduct 1) stocked_memory) = []
   \<and> dispatch 1 (shop 2) json_text stocked_store (AddProduct 1) = Some stocked_store
   \<and> failure_condition (shop 2) (snd (cart stocked_store)) (RemoveProduct 9)
   \<and> toasts (invoke_heap (shop 2) [0, 1, 2] (RemoveProduct 9) stocked_memory)
        = [Erro_na_remocao_do_produto]
   \<and> objects (invoke_heap (shop 2) [0, 1, 2] (RemoveProduct 9) stocked_memory)
        = objects stocked_memory
   \<and> dispatch 1 (shop 2) json_text stocked_store (RemoveProduct 9) = Some stocked_store
   \<and> \<not> failure_condition (shop 2) (snd (cart stocked_store)) (AddProduct 2)
   \<and> toasts (invoke_heap (shop 2) [0, 1, 2] (AddProduct 2) stocked_memory) = []"
proof -
  have c: "snd (cart stocked_store) = map (objects stocked_memory) [0, 1, 2]"
    by (simp add: stocked_store_def stocked_memory_def)
  have t: "toasts stocked_memory = []" and s: "setCart_calls stocked_memory = []"
    by (simp_all add: stocked_memory_def)
  have a: "toasts (invoke_heap (shop 2) [0, 1, 2] (AddProduct 1) stocked_memory)
        = [Quantidade_solicitada_fora_de_estoque]"
    by (simp add: addProduct_heap_def addProduct_try_def getProduct_def getStock_def shop_def
          stocked_memory_def toast_call_def)
  have r: "toasts (invoke_heap (shop 2) [0, 1, 2] (RemoveProduct 9) stocked_memory)
        = [Erro_na_remocao_do_produto]"
    by (simp add: removeProduct_heap_def removeProduct_try_def findIndex_def
          stocked_memory_def toast_call_def)
  have b: "toasts (invoke_heap (shop 2) [0, 1, 2] (AddProduct 2) stocked_memory) = []"
    by (simp add: addProduct_heap_def addProduct_try_def getProduct_def getStock_def shop_def
          stocked_memory_def setCart_call_def write_amount_def)
  from failure_leaves_store_unchanged [OF c refl, of "shop 2" "AddProduct 1" 1 json_text]
    failure_leaves_store_unchanged [OF c refl, of "shop 2" "RemoveProduct 9" 1 json_text]
    failure_leaves_store_unchanged [OF c refl, of "shop 2" "AddProduct 2" 1 json_text]
    c a r b t s
  show ?thesis by simp
qed

subsection \<open>C6: an amount below one is rejected\<close>

text \<open>
  Claim C6: \<^verbatim>\<open>updateProductAmount({productId, amount})\<close> with \<^verbatim>\<open>amount < 1\<close> signals
  the failure of the update and leaves the store as it was, whatever the cart and the
  remote API are; so an amount of 0 does not remove the item.
\<close>

theorem updateProductAmount_rejects_amount_below_one:
  assumes "amount' < 1"
  shows "updateProductAmount remote (snd (cart st)) productId amount'
           = toast_error Erro_na_alteracao_de_quantidade_do_produto
         \<and> dispatch n remote pf st (UpdateProductAmount productId amount') = Some st"
  using assms by (simp add: updateProductAmount_def dispatch_def)

text \<open>Amount 0 for product 2, which is in the cart: the toast, the same store, and the
  item is still there.\<close>

theorem updateProductAmount_rejects_amount_below_one_witness:
  "(0::int) < 1
   \<and> updateProductAmount (shop 5) (snd (cart stocked_store)) 2 0
        = toast_error Erro_na_alteracao_de_quantidade_do_produto
   \<and> dispatch 1 (shop 5) json_text stocked_store (UpdateProductAmount 2 0) = Some stocked_store
   \<and> \<lparr>id_field = 2, amount = 1\<rparr> \<in> set (snd (cart stocked_store))"
proof -
  have h: "(0::int) < 1" by simp
  show ?thesis
    using h updateProductAmount_rejects_amount_below_one [OF h, of "shop 5" stocked_store 2 1 json_text]
    by (simp add: stocked_store_def)
qed

subsection \<open>C9: adding a product that is not in the cart\<close>

text \<open>
  Claim C9: when the product is resolvable and no item of the cart has its id,
  \<^verbatim>\<open>addProduct\<close> appends the product with amount 1 and commits. The stock is not
  consulted: the statement holds for every remote API, whatever it answers on the stock
  routes.
\<close>

theorem addProduct_absent_appends_without_stock_check:
  assumes "reachable pf st"
    and "getProduct remote productId = Inr (Some product)"
    and "productId \<notin> id_field ` set (snd (cart st))"
  shows "addProduct remote (snd (cart st)) productId
           = setCart (snd (cart st) @ [product\<lparr>amount := 1\<rparr>])
         \<and> (\<exists>st'. dispatch (Suc n) remote pf st (AddProduct productId) = Some st'
                \<and> snd (cart st') = snd (cart st) @ [product\<lparr>amount := 1\<rparr>])"
proof -
  from assms(3) have "find (\<lambda>cartProduct. id_field cartProduct = productId) (snd (cart st)) = None"
    by (auto simp: find_None_iff)
  with assms(2) have a: "addProduct remote (snd (cart st)) productId
           = setCart (snd (cart st) @ [product\<lparr>amount := 1\<rparr>])"
    by (simp add: addProduct_def)
  from assms(1) have "settled st" by (simp add: reachable_settled)
  from dispatch_commit [OF this, of remote "AddProduct productId"
      "snd (cart st) @ [product\<lparr>amount := 1\<rparr>]" n pf] a render_set_cart(3) [OF \<open>settled st\<close>]
  show ?thesis by simp
qed

text \<open>With no unit in stock, product 3 is appended to the cart that holds product 1.\<close>

theorem addProduct_absent_appends_without_stock_check_witness:
  "reachable json_text one_item_store
   \<and> getProduct (shop 0) 3 = Inr (Some \<lparr>id_field = 3, amount = 0\<rparr>)
   \<and> 3 \<notin> id_field ` set (snd (cart one_item_store))
   \<and> getStock (shop 0) 3 = Inr \<lparr>Stock.id_field = 3, Stock.amount = 0\<rparr>
   \<and> addProduct (shop 0) (snd (cart one_item_store)) 3
       = setCart [\<lparr>id_field = 1, amount = 1\<rparr>, \<lparr>id_field = 3, amount = 1\<rparr>]
   \<and> (\<exists>st'. dispatch (Suc 0) (shop 0) json_text one_item_store (AddProduct 3) = Some st'
          \<and> snd (cart st') = [\<lparr>id_field = 1, amount = 1\<rparr>, \<lparr>id_field = 3, amount = 1\<rparr>])"
proof -
  have g: "getProduct (shop 0) 3 = Inr (Some \<lparr>id_field = 3, amount = 0\<rparr>)"
    by (simp add: getProduct_def shop_def)
  have a: "3 \<notin> id_field ` set (snd (cart one_item_store))"
    by (simp add: one_item_store_def)
  have s: "getStock (shop 0) 3 = Inr \<lparr>Stock.id_field = 3, Stock.amount = 0\<rparr>"
    by (simp add: getStock_def shop_def)
  have c: "snd (cart one_item_store) = [\<lparr>id_field = 1, amount = 1\<rparr>]"
    by (simp add: one_item_store_def)
  show ?thesis
    using reachable_one_item_store g a s
      addProduct_absent_appends_without_stock_check [OF reachable_one_item_store g a, of 0]
    by (simp add: c)
qed

subsection \<open>C3: the cart of the first render\<close>

text \<open>
  Claim C3: the cart is initialised from the storage slot, and an absent or malformed
  value gives the empty cart instead of a failure.

  The second half fails: the initialiser calls \<^verbatim>\<open>JSON.parse\<close> outside any \<^verbatim>\<open>try\<close>, so
  on a slot that holds \<^verbatim>\<open>{\<close> the parser's \<^verbatim>\<open>SyntaxError\<close> ends the first render.
\<close>

theorem malformed_cache_fails_initialisation:
  "JSON_parse json_text ''{'' = Inl SyntaxError
   \<and> CartProvider_init json_text (Some ''{'') = Inl SyntaxError"
  by (simp add: CartProvider_init_def initial_cart_def json_text_def parse_cart_def)

text \<open>
  Claim C3 as amended: an absent slot and the empty string give the empty cart; any
  other value is handed to \<^verbatim>\<open>JSON.parse\<close>, and the outcome of the initialisation is the
  outcome of the parser: its cart, or its error.
\<close>

theorem initial_cart_from_cache:
  "map_sum id (\<lambda>st0. snd (cart st0)) (CartProvider_init pf None) = Inr []
   \<and> map_sum id (\<lambda>st0. snd (cart st0)) (CartProvider_init pf (Some [])) = Inr []
   \<and> (s \<noteq> [] \<longrightarrow>
        map_sum id (\<lambda>st0. snd (cart st0)) (CartProvider_init pf (Some s)) = JSON_parse pf s)"
  by (auto simp: CartProvider_init_def initial_cart_def split: sum.splits)

text \<open>A slot written by the store is read back; a text that is not JSON fails.\<close>

theorem initial_cart_from_cache_witness:
  \<open>''[{"id":1,"amount":1}]'' \<noteq> []
   \<and> map_sum id (\<lambda>st0. snd (cart st0)) (CartProvider_init json_text (Some ''[{"id":1,"amount":1}]''))
       = Inr [\<lparr>id_field = 1, amount = 1\<rparr>]
   \<and> map_sum id (\<lambda>st0. snd (cart st0)) (CartProvider_init json_text (Some ''not json'')) = Inl SyntaxError\<close>
proof -
  have p: "JSON_parse json_text ''not json'' = Inl SyntaxError"
    by (simp add: json_text_def parse_cart_def)
  have q: \<open>JSON_parse json_text ''[{"id":1,"amount":1}]'' = Inr [\<lparr>id_field = 1, amount = 1\<rparr>]\<close>
    by (simp add: json_text_def parse_one_item)
  show ?thesis
    using initial_cart_from_cache [of json_text \<open>''[{"id":1,"amount":1}]''\<close>]
      initial_cart_from_cache [of json_text "''not json''"] p q
    by simp
qed

subsection \<open>C4: adding a product that is in the cart\<close>

text \<open>
  Claim C4: when the product is resolvable (the code fetches it first) and the cart has
  an item with its id, the stock of the product is fetched. If the item's amount is at
  least the stock amount, the out-of-stock toast is signalled and the store is unchanged.
  Otherwise the cart is committed with the amount of that item (the first with this id,
  at index \<open>i\<close>) incremented by one, every other position as it was, and the slot
  holds its serialisation.
\<close>

theorem addProduct_present:
  assumes "reachable pf st"
    and "getProduct remote productId = Inr (Some product)"
    and "find (\<lambda>cartProduct. id_field cartProduct = productId) (snd (cart st)) = Some productExists"
    and "getStock remote productId = Inr stock'"
  shows "(Stock.amount stock' \<le> amount productExists \<longrightarrow>
            addProduct remote (snd (cart st)) productId
              = toast_error Quantidade_solicitada_fora_de_estoque
            \<and> dispatch n remote pf st (AddProduct productId) = Some st)
       \<and> (amount productExists < Stock.amount stock' \<longrightarrow>
            (\<exists>i st'. i < length (snd (cart st)) \<and> snd (cart st) ! i = productExists
               \<and> (\<forall>j<i. id_field (snd (cart st) ! j) \<noteq> productId)
               \<and> dispatch (Suc n) remote pf st (AddProduct productId) = Some st'
               \<and> snd (cart st')
                   = (snd (cart st))[i := productExists\<lparr>amount := amount productExists + 1\<rparr>]
               \<and> localStorage st' = Some (JSON_stringify pf (snd (cart st')))))"
proof (intro conjI impI)
  assume le: "Stock.amount stock' \<le> amount productExists"
  with assms show t: "addProduct remote (snd (cart st)) productId
              = toast_error Quantidade_solicitada_fora_de_estoque"
    by (simp add: addProduct_def)
  then show "dispatch n remote pf st (AddProduct productId) = Some st"
    by (simp add: dispatch_def)
next
  assume lt: "amount productExists < Stock.amount stock'"
  let ?P = "\<lambda>cartProduct. id_field cartProduct = productId"
  let ?c = "snd (cart st)"
  from assms(3) obtain i where i: "i < length ?c" "?P (?c ! i)" "productExists = ?c ! i"
      "\<forall>j<i. \<not> ?P (?c ! j)"
    by (auto simp: find_Some_iff)
  let ?c' = "?c[i := productExists\<lparr>amount := amount productExists + 1\<rparr>]"
  from i have "assign_found ?P (\<lambda>p. p\<lparr>amount := amount p + 1\<rparr>) ?c = ?c'"
    by (simp add: assign_found_nth)
  with assms lt have a: "invoke remote ?c (AddProduct productId) = setCart ?c'"
    by (simp add: addProduct_def)
  from assms(1) have s: "settled st" by (simp add: reachable_settled)
  have "dispatch (Suc n) remote pf st (AddProduct productId)
          = Some (fst (render pf (set_cart ?c' st)))"
    using s a by (rule dispatch_commit)
  moreover have "snd (cart (fst (render pf (set_cart ?c' st)))) = ?c'"
    using render_set_cart(3) [OF s, of pf ?c'] by simp
  moreover have "localStorage (fst (render pf (set_cart ?c' st))) = Some (JSON_stringify pf ?c')"
    using s by (rule render_set_cart(4))
  ultimately show "\<exists>i st'. i < length ?c \<and> ?c ! i = productExists
               \<and> (\<forall>j<i. id_field (?c ! j) \<noteq> productId)
               \<and> dispatch (Suc n) remote pf st (AddProduct productId) = Some st'
               \<and> snd (cart st') = ?c[i := productExists\<lparr>amount := amount productExists + 1\<rparr>]
               \<and> localStorage st' = Some (JSON_stringify pf (snd (cart st')))"
    using i by (intro exI [of _ i] exI [of _ "fst (render pf (set_cart ?c' st))"]) simp
qed

text \<open>The store with the items (1, 2), (2, 1), (3, 4). With two units in stock the add of
  product 1 is refused; with three, the first item goes to amount 3 and the rest stays.\<close>

theorem addProduct_present_witness:
  "reachable json_text stocked_store
   \<and> getProduct (shop 2) 1 = Inr (Some \<lparr>id_field = 1, amount = 0\<rparr>)
   \<and> find (\<lambda>cartProduct. id_field cartProduct = 1) (snd (cart stocked_store))
       = Some \<lparr>id_field = 1, amount = 2\<rparr>
   \<and> getStock (shop 2) 1 = Inr \<lparr>Stock.id_field = 1, Stock.amount = 2\<rparr>
   \<and> addProduct (shop 2) (snd (cart stocked_store)) 1
       = toast_error Quantidade_solicitada_fora_de_estoque
   \<and> dispatch 1 (shop 2) json_text stocked_store (AddProduct 1) = Some stocked_store
   \<and> getStock (shop 3) 1 = Inr \<lparr>Stock.id_field = 1, Stock.amount = 3\<rparr>
   \<and> (\<exists>st'. dispatch 1 (shop 3) json_text stocked_store (AddProduct 1) = Some st'
          \<and> snd (cart st') = [\<lparr>id_field = 1, amount = 3\<rparr>, \<lparr>id_field = 2, amount = 1\<rparr>,
                               \<lparr>id_field = 3, amount = 4\<rparr>]
          \<and> localStorage st' = Some (JSON_stringify json_text (snd (cart st'))))"
proof -
  have g: "getProduct (shop k) 1 = Inr (Some \<lparr>id_field = 1, amount = 0\<rparr>)" for k
    by (simp add: getProduct_def shop_def)
  have f: "find (\<lambda>cartProduct. id_field cartProduct = 1) (snd (cart stocked_store))
       = Some \<lparr>id_field = 1, amount = 2\<rparr>"
    by (simp add: stocked_store_def)
  have s: "getStock (shop k) 1 = Inr \<lparr>Stock.id_field = 1, Stock.amount = k\<rparr>" for k
    by (simp add: getStock_def shop_def)
  have c: "snd (cart stocked_store) = [\<lparr>id_field = 1, amount = 2\<rparr>, \<lparr>id_field = 2, amount = 1\<rparr>,
                               \<lparr>id_field = 3, amount = 4\<rparr>]"
    by (simp add: stocked_store_def)
  from addProduct_present [OF reachable_stocked_store g f s, of 2 1]
  have low: "addProduct (shop 2) (snd (cart stocked_store)) 1
       = toast_error Quantidade_solicitada_fora_de_estoque
     \<and> dispatch 1 (shop 2) json_text stocked_store (AddProduct 1) = Some stocked_store"
    by simp
  from addProduct_present [OF reachable_stocked_store g f s, of 3 0]
  obtain i st' where i: "i < length (snd (cart stocked_store))"
      "snd (cart stocked_store) ! i = \<lparr>id_field = 1, amount = 2\<rparr>"
    and d: "dispatch 1 (shop 3) json_text stocked_store (AddProduct 1) = Some st'"
      "snd (cart st') = (snd (cart stocked_store))[i := \<lparr>id_field = 1, amount = 3\<rparr>]"
      "localStorage st' = Some (JSON_stringify json_text (snd (cart st')))"
    by auto
  from i have "i = 0" by (cases i) (auto simp: c nth_Cons split: nat.splits)
  with d have "snd (cart st') = [\<lparr>id_field = 1, amount = 3\<rparr>, \<lparr>id_field = 2, amount = 1\<rparr>,
                               \<lparr>id_field = 3, amount = 4\<rparr>]"
    by (simp add: c)
  with d reachable_stocked_store g [of 2] f s [of 2] s [of 3] low show ?thesis by simp
qed

subsection \<open>C7: removing a product\<close>

text \<open>
  Claim C7: when no item of the cart has the given id, \<^verbatim>\<open>removeProduct\<close> signals the
  failure of the removal and the store is unchanged. Otherwise the cart is committed
  without the item at index \<open>i\<close>, the first with this id: the items before and after it
  keep their order; and the slot holds the serialisation of the new cart.
\<close>

theorem removeProduct_deletes_first_match:
  assumes "reachable pf st"
  shows "(productId \<notin> id_field ` set (snd (cart st)) \<longrightarrow>
            removeProduct (snd (cart st)) productId = toast_error Erro_na_remocao_do_produto
            \<and> dispatch n remote pf st (RemoveProduct productId) = Some st)
       \<and> (productId \<in> id_field ` set (snd (cart st)) \<longrightarrow>
            (\<exists>i st'. i < length (snd (cart st)) \<and> id_field (snd (cart st) ! i) = productId
               \<and> (\<forall>j<i. id_field (snd (cart st) ! j) \<noteq> productId)
               \<and> dispatch (Suc n) remote pf st (RemoveProduct productId) = Some st'
               \<and> snd (cart st') = take i (snd (cart st)) @ drop (Suc i) (snd (cart st))
               \<and> localStorage st' = Some (JSON_stringify pf (snd (cart st')))))"
proof (intro conjI impI)
  let ?P = "\<lambda>product. id_field product = productId"
  let ?c = "snd (cart st)"
  assume "productId \<notin> id_field ` set ?c"
  then have "\<forall>x\<in>set ?c. \<not> ?P x" by auto
  then have "findIndex ?P ?c = -1"
    unfolding findIndex_def by (rule findIndex_from_absent)
  then show "removeProduct ?c productId = toast_error Erro_na_remocao_do_produto"
    by (simp add: removeProduct_def)
  then show "dispatch n remote pf st (RemoveProduct productId) = Some st"
    by (simp add: dispatch_def)
next
  let ?P = "\<lambda>product. id_field product = productId"
  let ?c = "snd (cart st)"
  assume "productId \<in> id_field ` set ?c"
  then have "\<exists>x\<in>set ?c. ?P x" by auto
  then obtain i where i: "i < length ?c" "?P (?c ! i)" "\<forall>j<i. \<not> ?P (?c ! j)"
    by (rule first_index)
  then have "findIndex ?P ?c = int i"
    unfolding findIndex_def using findIndex_from_nth [of i ?c ?P 0] by simp
  then have a: "invoke remote ?c (RemoveProduct productId) = setCart (take i ?c @ drop (Suc i) ?c)"
    by (simp add: removeProduct_def splice1_def Let_def)
  let ?c' = "take i ?c @ drop (Suc i) ?c"
  from assms have s: "settled st" by (simp add: reachable_settled)
  have "dispatch (Suc n) remote pf st (RemoveProduct productId)
          = Some (fst (render pf (set_cart ?c' st)))"
    using s a by (rule dispatch_commit)
  moreover have "snd (cart (fst (render pf (set_cart ?c' st)))) = ?c'"
    using render_set_cart(3) [OF s, of pf ?c'] by simp
  moreover have "localStorage (fst (render pf (set_cart ?c' st))) = Some (JSON_stringify pf ?c')"
    using s by (rule render_set_cart(4))
  ultimately show "\<exists>i st'. i < length ?c \<and> id_field (?c ! i) = productId
               \<and> (\<forall>j<i. id_field (?c ! j) \<noteq> productId)
               \<and> dispatch (Suc n) remote pf st (RemoveProduct productId) = Some st'
               \<and> snd (cart st') = take i ?c @ drop (Suc i) ?c
               \<and> localStorage st' = Some (JSON_stringify pf (snd (cart st')))"
    using i by (intro exI [of _ i] exI [of _ "fst (render pf (set_cart ?c' st))"]) simp
qed

text \<open>Product 9 is not in the cart of three items; removing product 2 leaves the items
  of products 1 and 3, in this order.\<close>

theorem removeProduct_deletes_first_match_witness:
  "reachable json_text stocked_store
   \<and> 9 \<notin> id_field ` set (snd (cart stocked_store))
   \<and> removeProduct (snd (cart stocked_store)) 9 = toast_error Erro_na_remocao_do_produto
   \<and> dispatch 1 (shop 5) json_text stocked_store (RemoveProduct 9) = Some stocked_store
   \<and> 2 \<in> id_field ` set (snd (cart stocked_store))
   \<and> (\<exists>st'. dispatch 1 (shop 5) json_text stocked_store (RemoveProduct 2) = Some st'
          \<and> snd (cart st') = [\<lparr>id_field = 1, amount = 2\<rparr>, \<lparr>id_field = 3, amount = 4\<rparr>]
          \<and> localStorage st' = Some (JSON_stringify json_text (snd (cart st'))))"
proof -
  have c: "snd (cart stocked_store) = [\<lparr>id_field = 1, amount = 2\<rparr>, \<lparr>id_field = 2, amount = 1\<rparr>,
                               \<lparr>id_field = 3, amount = 4\<rparr>]"
    by (simp add: stocked_store_def)
  have n9: "9 \<notin> id_field ` set (snd (cart stocked_store))" by (simp add: c)
  have i2: "2 \<in> id_field ` set (snd (cart stocked_store))" by (simp add: c)
  from removeProduct_deletes_first_match [OF reachable_stocked_store, of 9 1 "shop 5"] n9
  have absent: "removeProduct (snd (cart stocked_store)) 9 = toast_error Erro_na_remocao_do_produto
     \<and> dispatch 1 (shop 5) json_text stocked_store (RemoveProduct 9) = Some stocked_store"
    by simp
  from removeProduct_deletes_first_match [OF reachable_stocked_store, of 2 0 "shop 5"] i2
  obtain i st' where i: "i < length (snd (cart stocked_store))"
      "id_field (snd (cart stocked_store) ! i) = 2"
    and d: "dispatch 1 (shop 5) json_text stocked_store (RemoveProduct 2) = Some st'"
      "snd (cart st') = take i (snd (cart stocked_store)) @ drop (Suc i) (snd (cart stocked_store))"
      "localStorage st' = Some (JSON_stringify json_text (snd (cart st')))"
    by auto
  from i have "i = 1" by (auto simp: c nth_Cons less_Suc_eq split: nat.splits)
  with d have "snd (cart st') = [\<lparr>id_field = 1, amount = 2\<rparr>, \<lparr>id_field = 3, amount = 4\<rparr>]"
    by (simp add: c)
  with d reachable_stocked_store n9 i2 absent show ?thesis by simp
qed

subsection \<open>C5: the storage slot mirrors the committed cart\<close>

text \<open>
  Claim C5: after every successful operation, reading the storage slot and deserialising
  it gives a cart equal in content to the cart in memory.

  The code breaks it for the amount \<^verbatim>\<open>NaN\<close>. Both guards of \<^verbatim>\<open>updateProductAmount\<close>
  are comparisons (\<^verbatim>\<open>amount < 1\<close>, \<^verbatim>\<open>stockAmount < amount\<close>) and both are false for
  \<^verbatim>\<open>NaN\<close>, so on the cart with one item of product 1 the call with amount \<^verbatim>\<open>NaN\<close>
  commits that item with amount \<^verbatim>\<open>NaN\<close>. The render after the commit writes
  \<^verbatim>\<open>JSON.stringify(cart)\<close> to the slot (as in every commit), which is the text with
  \<^verbatim>\<open>null\<close> for the amount, and reading it back gives an item whose amount is
  \<^verbatim>\<open>null\<close>.
\<close>

theorem nan_amount_is_not_mirrored:
  \<open>updateProductAmount_wide (shop 5) [\<lparr>id_wide = 1, amount_wide = Number 1\<rparr>] 1 NaN
     = setCart [\<lparr>id_wide = 1, amount_wide = NaN\<rparr>]
   \<and> stringify_wide [\<lparr>id_wide = 1, amount_wide = NaN\<rparr>] = ''[{"id":1,"amount":null}]''
   \<and> parse_wide ''[{"id":1,"amount":null}]'' = Inr [\<lparr>id_wide = 1, amount_wide = Null\<rparr>]
   \<and> parse_wide (stringify_wide [\<lparr>id_wide = 1, amount_wide = NaN\<rparr>])
        \<noteq> Inr [\<lparr>id_wide = 1, amount_wide = NaN\<rparr>]\<close>
proof -
  have u: "updateProductAmount_wide (shop 5) [\<lparr>id_wide = 1, amount_wide = Number 1\<rparr>] 1 NaN
     = setCart [\<lparr>id_wide = 1, amount_wide = NaN\<rparr>]"
    by (simp add: updateProductAmount_wide_def less_than_def getStock_def shop_def)
  have s: \<open>stringify_wide [\<lparr>id_wide = 1, amount_wide = NaN\<rparr>] = ''[{"id":1,"amount":null}]''\<close>
    by code_simp
  have p: \<open>parse_wide ''[{"id":1,"amount":null}]'' = Inr [\<lparr>id_wide = 1, amount_wide = Null\<rparr>]\<close>
    by code_simp
  from u s p show ?thesis by simp
qed

subsection \<open>C8: the stock snapshot stays empty\<close>

text \<open>
  Claim C8: in every reachable store the stock snapshot is the empty mapping, and the
  effect that would refresh it never calls \<^verbatim>\<open>loadStocks\<close>: not in the first render, not
  in a render of a reachable store, and not in the render after a \<^verbatim>\<open>setCart\<close>. (The
  previous stock is the current one in the first render, and afterwards only
  \<^verbatim>\<open>loadStocks\<close> would replace it.)
\<close>

theorem stock_snapshot_never_populated:
  assumes "reachable pf st"
  shows "snd (stock st) = Map.empty
       \<and> \<not> snd (render pf st)
       \<and> (\<forall>c. \<not> snd (render pf (set_cart c st)))
       \<and> (CartProvider_init pf slot = Inr st0 \<longrightarrow> \<not> snd (render pf st0))"
proof -
  from assms have s: "settled st" by (simp add: reachable_settled)
  then have "snd (stock st) = Map.empty" by (simp add: settled_def)
  moreover have "\<not> snd (render pf st)" using s by (rule render_settled(1))
  moreover have "\<not> snd (render pf (set_cart c st))" for c using s by (rule render_set_cart(1))
  moreover have "\<not> snd (render pf st0)" if "CartProvider_init pf slot = Inr st0"
    using that by (rule render_init(1))
  ultimately show ?thesis by blast
qed

text \<open>The remote API lists five units of product 1, and the snapshot after an add is
  empty all the same.\<close>

theorem stock_snapshot_never_populated_witness:
  "reachable json_text one_item_store
   \<and> map_sum id (\<lambda>stockAmount. stockAmount 1) (loadStocks (shop 5)) = Inr (Some 5)
   \<and> snd (stock one_item_store) = Map.empty
   \<and> \<not> snd (render json_text one_item_store)
   \<and> \<not> snd (render json_text (set_cart [] one_item_store))"
proof -
  have l: "map_sum id (\<lambda>stockAmount. stockAmount 1) (loadStocks (shop 5)) = Inr (Some 5)"
    by (simp add: loadStocks_def shop_def)
  from stock_snapshot_never_populated [OF reachable_one_item_store] l reachable_one_item_store
  show ?thesis by blast
qed

subsection \<open>C10: the operations do not touch the stock snapshot\<close>

text \<open>
  Claim C10: none of the three operations ends in \<^verbatim>\<open>setStock\<close>, and after an operation
  from a reachable store, successful or failed, the stock snapshot is the object it was
  before, with the same content.
\<close>

theorem operations_leave_stock_unchanged:
  assumes "reachable pf st"
    and "dispatch n remote pf st cl = Some st'"
  shows "stock st' = stock st \<and> (\<forall>m. invoke remote (snd (cart st)) cl \<noteq> setStock m)"
proof -
  from assms have "reachable pf st'" by (rule reachable.step)
  then have "stock st' = (1, Map.empty)" by (simp add: reachable_settled [unfolded settled_def])
  moreover from assms(1) have "stock st = (1, Map.empty)"
    by (simp add: reachable_settled [unfolded settled_def])
  ultimately show ?thesis using invoke_not_setStock by metis
qed

text \<open>A successful add and a refused update (nine units asked, five in stock).\<close>

theorem operations_leave_stock_unchanged_witness:
  "reachable json_text fresh_store
   \<and> dispatch 1 (shop 5) json_text fresh_store (AddProduct 1) = Some one_item_store
   \<and> stock one_item_store = stock fresh_store
   \<and> dispatch 1 (shop 5) json_text one_item_store (UpdateProductAmount 1 9) = Some one_item_store"
proof -
  have a: "dispatch 1 (shop 5) json_text fresh_store (AddProduct 1) = Some one_item_store"
    using add_to_fresh_store [of 5] by simp
  have u: "dispatch 1 (shop 5) json_text one_item_store (UpdateProductAmount 1 9) = Some one_item_store"
    by (simp add: dispatch_def updateProductAmount_def getStock_def shop_def)
  from operations_leave_stock_unchanged [OF reachable_fresh_store a] a u reachable_fresh_store
  show ?thesis by simp
qed

end
